theory Spec2Isabelle
  imports Main "HOL-Library.Sublist"
begin

section \<open>Operation nodes consumed by the conflict-clause builders\<close>

text \<open>
  The builders of \<^verbatim>\<open>src/query-builder/on-conflict-builder.ts\<close> assemble an
  \<^verbatim>\<open>OnConflictNode\<close>. The node module, the column and identifier nodes, the raw
  builder, the parsers and the two utilities are imported by that file and are not part
  of it. What the builder needs of them is modelled in this section and the next, from
  the calls the builder makes and from the specification.
\<close>

text \<open>
  Modelled from the spec: an identifier node and a column node (operation-node modules,
  not in the source at hand) stand for "a single identifier" and "a column identifier".
\<close>

datatype IdentifierNode = IdentifierNode string

datatype ColumnNode = ColumnNode string

text \<open>
  Modelled from the spec: \<^verbatim>\<open>IdentifierNode.create\<close> (not in the source at hand) makes
  the node of the supplied name.
\<close>

definition IdentifierNode_create :: "string \<Rightarrow> IdentifierNode" where
  "IdentifierNode_create n = IdentifierNode n"

text \<open>
  Modelled from the spec: \<^verbatim>\<open>ColumnNode.create\<close> (not in the source at hand) makes the
  node of the supplied column name. \<^verbatim>\<open>columns.map(ColumnNode.create)\<close> also hands the
  index and the array to \<^verbatim>\<open>create\<close>; the model takes the name only.
\<close>

definition ColumnNode_create :: "string \<Rightarrow> ColumnNode" where
  "ColumnNode_create c = ColumnNode c"

text \<open>
  Modelled from the spec: a raw builder (\<^verbatim>\<open>raw-builder\<close> module, not in the source at
  hand) is "a pre-built opaque expression"; the builder only asks it for its operation
  node (\<^verbatim>\<open>expression.toOperationNode()\<close>).
\<close>

datatype 'x RawBuilder = RawBuilder 'x

fun RawBuilder_toOperationNode :: "'x RawBuilder \<Rightarrow> 'x" where
  "RawBuilder_toOperationNode (RawBuilder n) = n"

text \<open>
  Modelled from the spec: the predicate tree (not in the source at hand), "immutable
  boolean-expression node combining comparisons, reference-to-reference comparisons, and
  correlated existence checks via AND/OR". What the filter parsers produce is opaque
  (type \<open>'f\<close>).
\<close>

datatype 'f FilterNode =
    Filter 'f
  | AndNode "'f FilterNode" "'f FilterNode"
  | OrNode "'f FilterNode" "'f FilterNode"

text \<open>
  Modelled from the spec: the descriptor \<^verbatim>\<open>OnConflictNode\<close> (its declaration is not in
  the source at hand). The fields \<open>columns\<close>, \<open>constraint\<close>, \<open>indexExpression\<close>,
  \<open>updates\<close> and \<open>doNothing\<close> are the ones the builder passes to
  \<^verbatim>\<open>OnConflictNode.cloneWith\<close>; \<open>indexWhere\<close> and \<open>updateWhere\<close> are the index
  predicate and the update predicate of the specification, written through
  \<^verbatim>\<open>cloneWithIndexWhere\<close>/\<^verbatim>\<open>cloneWithIndexOrWhere\<close> and
  \<^verbatim>\<open>cloneWithUpdateWhere\<close>/\<^verbatim>\<open>cloneWithUpdateOrWhere\<close>. The action of the specification
  is undecided when neither \<open>doNothing\<close> nor \<open>updates\<close> is set, "ignore" when
  \<open>doNothing\<close> is set, "update" with the value mapping \<open>updates\<close> when that is set.
  Every field is optional; \<open>None\<close> is an absent property.

  The type \<open>'k\<close> is what the \<open>columns\<close> property holds: the list of column nodes
  itself where builders are treated as values, a reference to an array object where
  objects live in a store (section "Objects in a store").
\<close>

record ('k, 'f, 'x, 'u) OnConflictNode_with =
  columns :: "'k option"
  constraint :: "IdentifierNode option"
  indexExpression :: "'x option"
  indexWhere :: "'f FilterNode option"
  updates :: "'u option"
  updateWhere :: "'f FilterNode option"
  doNothing :: "bool option"

type_synonym ('f, 'x, 'u) OnConflictNode = "(ColumnNode list, 'f, 'x, 'u) OnConflictNode_with"

text \<open>
  Modelled from the spec: \<^verbatim>\<open>OnConflictNode.create\<close> (not in the source at hand);
  "a ConflictDescriptor is created empty by the enclosing statement builder".
\<close>

definition OnConflictNode_create :: "('k, 'f, 'x, 'u) OnConflictNode_with" where
  "OnConflictNode_create =
     \<lparr>columns = None, constraint = None, indexExpression = None, indexWhere = None,
      updates = None, updateWhere = None, doNothing = None\<rparr>"

text \<open>
  The second argument of \<^verbatim>\<open>cloneWith\<close> as the builder writes it: an object literal
  holding one of the non-predicate fields. \<open>None\<close> is a key the literal does not have;
  \<open>no_props\<close> is the literal with no key.
\<close>

record ('k, 'x, 'u) OnConflictNodeProps =
  columns_prop :: "'k option"
  constraint_prop :: "IdentifierNode option"
  indexExpression_prop :: "'x option"
  updates_prop :: "'u option"
  doNothing_prop :: "bool option"

definition no_props :: "('k, 'x, 'u) OnConflictNodeProps" where
  "no_props =
     \<lparr>columns_prop = None, constraint_prop = None, indexExpression_prop = None,
      updates_prop = None, doNothing_prop = None\<rparr>"

text \<open>
  Modelled from the spec: one field of "a new value holding the delta", the supplied
  value where the literal has the key, the old value where it has not.
\<close>

definition spread :: "'a option \<Rightarrow> 'a option \<Rightarrow> 'a option" where
  "spread old new = (case new of None \<Rightarrow> old | Some v \<Rightarrow> Some v)"

text \<open>
  Modelled from the spec: \<^verbatim>\<open>OnConflictNode.cloneWith\<close> (node module, not in the source
  at hand). "Every operation replaces the whole descriptor with a new value holding the
  delta": the result has the supplied fields, and every other field, the two predicates
  among them, is the one of the node cloned.
\<close>

definition cloneWith ::
  "('k, 'f, 'x, 'u) OnConflictNode_with \<Rightarrow> ('k, 'x, 'u) OnConflictNodeProps \<Rightarrow>
   ('k, 'f, 'x, 'u) OnConflictNode_with"
where
  "cloneWith node props =
     node\<lparr>columns := spread (columns node) (columns_prop props),
          constraint := spread (constraint node) (constraint_prop props),
          indexExpression := spread (indexExpression node) (indexExpression_prop props),
          updates := spread (updates node) (updates_prop props),
          doNothing := spread (doNothing node) (doNothing_prop props)\<rparr>"

text \<open>
  Modelled from the spec: the AND-join of the predicate composer (not in the source at
  hand). "AND-joining onto an absent predicate yields that predicate unchanged;
  AND-joining onto an existing predicate wraps both in a conjunction."
\<close>

definition and_join :: "'f FilterNode option \<Rightarrow> 'f FilterNode \<Rightarrow> 'f FilterNode" where
  "and_join tree new = (case tree of None \<Rightarrow> new | Some t \<Rightarrow> AndNode t new)"

text \<open>
  Modelled from the spec: the OR-join of the predicate composer (not in the source at
  hand). "OR-joining follows the same two rules with disjunction."
\<close>

definition or_join :: "'f FilterNode option \<Rightarrow> 'f FilterNode \<Rightarrow> 'f FilterNode" where
  "or_join tree new = (case tree of None \<Rightarrow> new | Some t \<Rightarrow> OrNode t new)"

text \<open>
  Modelled from the spec: \<^verbatim>\<open>OnConflictNode.cloneWithIndexWhere\<close> (node module, not in the source
  at hand) returns a new descriptor with the fragment AND-joined onto the
  index predicate and every other field as it was.
\<close>

definition cloneWithIndexWhere ::
  "('k, 'f, 'x, 'u) OnConflictNode_with \<Rightarrow> 'f FilterNode \<Rightarrow>
   ('k, 'f, 'x, 'u) OnConflictNode_with"
where
  "cloneWithIndexWhere node frag =
     node\<lparr>indexWhere := Some (and_join (indexWhere node) frag)\<rparr>"

text \<open>
  Modelled from the spec: \<^verbatim>\<open>OnConflictNode.cloneWithIndexOrWhere\<close> (node module, not in the source
  at hand) returns a new descriptor with the fragment OR-joined onto the
  index predicate and every other field as it was.
\<close>

definition cloneWithIndexOrWhere ::
  "('k, 'f, 'x, 'u) OnConflictNode_with \<Rightarrow> 'f FilterNode \<Rightarrow>
   ('k, 'f, 'x, 'u) OnConflictNode_with"
where
  "cloneWithIndexOrWhere node frag =
     node\<lparr>indexWhere := Some (or_join (indexWhere node) frag)\<rparr>"

text \<open>
  Modelled from the spec: \<^verbatim>\<open>OnConflictNode.cloneWithUpdateWhere\<close> (node module, not in the source
  at hand) returns a new descriptor with the fragment AND-joined onto the
  update predicate and every other field as it was.
\<close>

definition cloneWithUpdateWhere ::
  "('k, 'f, 'x, 'u) OnConflictNode_with \<Rightarrow> 'f FilterNode \<Rightarrow>
   ('k, 'f, 'x, 'u) OnConflictNode_with"
where
  "cloneWithUpdateWhere node frag =
     node\<lparr>updateWhere := Some (and_join (updateWhere node) frag)\<rparr>"

text \<open>
  Modelled from the spec: \<^verbatim>\<open>OnConflictNode.cloneWithUpdateOrWhere\<close> (node module, not in the source
  at hand) returns a new descriptor with the fragment OR-joined onto the
  update predicate and every other field as it was.
\<close>

definition cloneWithUpdateOrWhere ::
  "('k, 'f, 'x, 'u) OnConflictNode_with \<Rightarrow> 'f FilterNode \<Rightarrow>
   ('k, 'f, 'x, 'u) OnConflictNode_with"
where
  "cloneWithUpdateOrWhere node frag =
     node\<lparr>updateWhere := Some (or_join (updateWhere node) frag)\<rparr>"

section \<open>Parsers\<close>

text \<open>
  The filter and update-set parsers are external collaborators. They are parameters
  of the model: a record of the five functions the builders import. A parser returns
  its node or throws (\<open>Inl\<close> with what it threw); the builder call then ends with
  \<open>Thrown\<close> of the same value. \<open>NotAFunction\<close> is the error of calling a method an
  object does not have; \<open>BadReference\<close> belongs to the store of the section "Objects in
  a store". Caller-supplied arguments have the type \<open>'a\<close> (the source
  types them \<^verbatim>\<open>any[]\<close> or by schema-dependent types).
\<close>

datatype error = Thrown string | NotAFunction string | BadReference nat

record ('c, 'a, 'f, 'u) parsers =
  parseWhereFilter :: "'c \<Rightarrow> 'a list \<Rightarrow> string + 'f FilterNode"
  parseReferenceFilter :: "'c \<Rightarrow> 'a \<Rightarrow> 'a \<Rightarrow> 'a \<Rightarrow> string + 'f FilterNode"
  parseExistFilter :: "'c \<Rightarrow> 'a \<Rightarrow> string + 'f FilterNode"
  parseNotExistFilter :: "'c \<Rightarrow> 'a \<Rightarrow> string + 'f FilterNode"
  parseUpdateObject :: "'c \<Rightarrow> 'a \<Rightarrow> string + 'u"

text \<open>Sequencing of calls that may throw: the next call runs on what the previous returned.\<close>

definition and_then :: "error + 'b \<Rightarrow> ('b \<Rightarrow> error + 'r) \<Rightarrow> error + 'r" where
  "and_then r f = (case r of Inl e \<Rightarrow> Inl e | Inr b \<Rightarrow> f b)"

section \<open>The three builders\<close>

record ('f, 'x, 'u, 'c) OnConflictBuilderProps =
  onConflictNode :: "('f, 'x, 'u) OnConflictNode"
  parseContext :: 'c

datatype ('f, 'x, 'u, 'c) OnConflictBuilder =
  OnConflictBuilder "('f, 'x, 'u, 'c) OnConflictBuilderProps"

datatype ('f, 'x, 'u, 'c) OnConflictDoNothingBuilder =
  OnConflictDoNothingBuilder "('f, 'x, 'u, 'c) OnConflictBuilderProps"

datatype ('f, 'x, 'u, 'c) OnConflictUpdateBuilder =
  OnConflictUpdateBuilder "('f, 'x, 'u, 'c) OnConflictBuilderProps"

text \<open>The private field \<^verbatim>\<open>#props\<close> of each class.\<close>

fun OnConflictBuilder_props ::
  "('f, 'x, 'u, 'c) OnConflictBuilder \<Rightarrow> ('f, 'x, 'u, 'c) OnConflictBuilderProps" where
  "OnConflictBuilder_props (OnConflictBuilder p) = p"

fun OnConflictDoNothingBuilder_props ::
  "('f, 'x, 'u, 'c) OnConflictDoNothingBuilder \<Rightarrow> ('f, 'x, 'u, 'c) OnConflictBuilderProps" where
  "OnConflictDoNothingBuilder_props (OnConflictDoNothingBuilder p) = p"

fun OnConflictUpdateBuilder_props ::
  "('f, 'x, 'u, 'c) OnConflictUpdateBuilder \<Rightarrow> ('f, 'x, 'u, 'c) OnConflictBuilderProps" where
  "OnConflictUpdateBuilder_props (OnConflictUpdateBuilder p) = p"

subsection \<open>OnConflictBuilder: target and index predicate\<close>

definition OnConflictBuilder_column ::
  "('f, 'x, 'u, 'c) OnConflictBuilder \<Rightarrow> string \<Rightarrow> ('f, 'x, 'u, 'c) OnConflictBuilder"
where
  "OnConflictBuilder_column this column =
     (let props = OnConflictBuilder_props this;
          columnNode = ColumnNode_create column
      in OnConflictBuilder
           (props\<lparr>onConflictNode :=
              cloneWith (onConflictNode props)
                (no_props\<lparr>columns_prop :=
                   Some (case columns (onConflictNode props) of
                           Some cs \<Rightarrow> cs @ [columnNode]
                         | None \<Rightarrow> [columnNode])\<rparr>)\<rparr>))"

definition OnConflictBuilder_columns ::
  "('f, 'x, 'u, 'c) OnConflictBuilder \<Rightarrow> string list \<Rightarrow> ('f, 'x, 'u, 'c) OnConflictBuilder"
where
  "OnConflictBuilder_columns this cols =
     (let props = OnConflictBuilder_props this;
          columnNodes = map ColumnNode_create cols
      in OnConflictBuilder
           (props\<lparr>onConflictNode :=
              cloneWith (onConflictNode props)
                (no_props\<lparr>columns_prop :=
                   Some (case columns (onConflictNode props) of
                           Some cs \<Rightarrow> cs @ columnNodes
                         | None \<Rightarrow> columnNodes)\<rparr>)\<rparr>))"

definition OnConflictBuilder_constraint ::
  "('f, 'x, 'u, 'c) OnConflictBuilder \<Rightarrow> string \<Rightarrow> ('f, 'x, 'u, 'c) OnConflictBuilder"
where
  "OnConflictBuilder_constraint this constraintName =
     (let props = OnConflictBuilder_props this
      in OnConflictBuilder
           (props\<lparr>onConflictNode :=
              cloneWith (onConflictNode props)
                (no_props\<lparr>constraint_prop := Some (IdentifierNode_create constraintName)\<rparr>)\<rparr>))"

definition OnConflictBuilder_expression ::
  "('f, 'x, 'u, 'c) OnConflictBuilder \<Rightarrow> 'x RawBuilder \<Rightarrow> ('f, 'x, 'u, 'c) OnConflictBuilder"
where
  "OnConflictBuilder_expression this expression =
     (let props = OnConflictBuilder_props this
      in OnConflictBuilder
           (props\<lparr>onConflictNode :=
              cloneWith (onConflictNode props)
                (no_props\<lparr>indexExpression_prop :=
                   Some (RawBuilder_toOperationNode expression)\<rparr>)\<rparr>))"

text \<open>
  The eight index-predicate methods: parse the arguments, then join the fragment onto
  the index predicate. A parser that throws ends the call with its error.
\<close>

definition OnConflictBuilder_where ::
  "('c, 'a, 'f, 'u) parsers \<Rightarrow> ('f, 'x, 'u, 'c) OnConflictBuilder \<Rightarrow> 'a list \<Rightarrow>
   error + ('f, 'x, 'u, 'c) OnConflictBuilder"
where
  "OnConflictBuilder_where ps this args =
     (let props = OnConflictBuilder_props this
      in case parseWhereFilter ps (parseContext props) args of
           Inl e \<Rightarrow> Inl (Thrown e)
         | Inr frag \<Rightarrow>
             Inr (OnConflictBuilder
                    (props\<lparr>onConflictNode := cloneWithIndexWhere (onConflictNode props) frag\<rparr>)))"

definition OnConflictBuilder_whereRef ::
  "('c, 'a, 'f, 'u) parsers \<Rightarrow> ('f, 'x, 'u, 'c) OnConflictBuilder \<Rightarrow> 'a \<Rightarrow> 'a \<Rightarrow> 'a \<Rightarrow>
   error + ('f, 'x, 'u, 'c) OnConflictBuilder"
where
  "OnConflictBuilder_whereRef ps this lhs op rhs =
     (let props = OnConflictBuilder_props this
      in case parseReferenceFilter ps (parseContext props) lhs op rhs of
           Inl e \<Rightarrow> Inl (Thrown e)
         | Inr frag \<Rightarrow>
             Inr (OnConflictBuilder
                    (props\<lparr>onConflictNode := cloneWithIndexWhere (onConflictNode props) frag\<rparr>)))"

definition OnConflictBuilder_orWhere ::
  "('c, 'a, 'f, 'u) parsers \<Rightarrow> ('f, 'x, 'u, 'c) OnConflictBuilder \<Rightarrow> 'a list \<Rightarrow>
   error + ('f, 'x, 'u, 'c) OnConflictBuilder"
where
  "OnConflictBuilder_orWhere ps this args =
     (let props = OnConflictBuilder_props this
      in case parseWhereFilter ps (parseContext props) args of
           Inl e \<Rightarrow> Inl (Thrown e)
         | Inr frag \<Rightarrow>
             Inr (OnConflictBuilder
                    (props\<lparr>onConflictNode := cloneWithIndexOrWhere (onConflictNode props) frag\<rparr>)))"

definition OnConflictBuilder_orWhereRef ::
  "('c, 'a, 'f, 'u) parsers \<Rightarrow> ('f, 'x, 'u, 'c) OnConflictBuilder \<Rightarrow> 'a \<Rightarrow> 'a \<Rightarrow> 'a \<Rightarrow>
   error + ('f, 'x, 'u, 'c) OnConflictBuilder"
where
  "OnConflictBuilder_orWhereRef ps this lhs op rhs =
     (let props = OnConflictBuilder_props this
      in case parseReferenceFilter ps (parseContext props) lhs op rhs of
           Inl e \<Rightarrow> Inl (Thrown e)
         | Inr frag \<Rightarrow>
             Inr (OnConflictBuilder
                    (props\<lparr>onConflictNode := cloneWithIndexOrWhere (onConflictNode props) frag\<rparr>)))"

definition OnConflictBuilder_whereExists ::
  "('c, 'a, 'f, 'u) parsers \<Rightarrow> ('f, 'x, 'u, 'c) OnConflictBuilder \<Rightarrow> 'a \<Rightarrow>
   error + ('f, 'x, 'u, 'c) OnConflictBuilder"
where
  "OnConflictBuilder_whereExists ps this arg =
     (let props = OnConflictBuilder_props this
      in case parseExistFilter ps (parseContext props) arg of
           Inl e \<Rightarrow> Inl (Thrown e)
         | Inr frag \<Rightarrow>
             Inr (OnConflictBuilder
                    (props\<lparr>onConflictNode := cloneWithIndexWhere (onConflictNode props) frag\<rparr>)))"

definition OnConflictBuilder_whereNotExists ::
  "('c, 'a, 'f, 'u) parsers \<Rightarrow> ('f, 'x, 'u, 'c) OnConflictBuilder \<Rightarrow> 'a \<Rightarrow>
   error + ('f, 'x, 'u, 'c) OnConflictBuilder"
where
  "OnConflictBuilder_whereNotExists ps this arg =
     (let props = OnConflictBuilder_props this
      in case parseNotExistFilter ps (parseContext props) arg of
           Inl e \<Rightarrow> Inl (Thrown e)
         | Inr frag \<Rightarrow>
             Inr (OnConflictBuilder
                    (props\<lparr>onConflictNode := cloneWithIndexWhere (onConflictNode props) frag\<rparr>)))"

definition OnConflictBuilder_orWhereExists ::
  "('c, 'a, 'f, 'u) parsers \<Rightarrow> ('f, 'x, 'u, 'c) OnConflictBuilder \<Rightarrow> 'a \<Rightarrow>
   error + ('f, 'x, 'u, 'c) OnConflictBuilder"
where
  "OnConflictBuilder_orWhereExists ps this arg =
     (let props = OnConflictBuilder_props this
      in case parseExistFilter ps (parseContext props) arg of
           Inl e \<Rightarrow> Inl (Thrown e)
         | Inr frag \<Rightarrow>
             Inr (OnConflictBuilder
                    (props\<lparr>onConflictNode := cloneWithIndexOrWhere (onConflictNode props) frag\<rparr>)))"

definition OnConflictBuilder_orWhereNotExists ::
  "('c, 'a, 'f, 'u) parsers \<Rightarrow> ('f, 'x, 'u, 'c) OnConflictBuilder \<Rightarrow> 'a \<Rightarrow>
   error + ('f, 'x, 'u, 'c) OnConflictBuilder"
where
  "OnConflictBuilder_orWhereNotExists ps this arg =
     (let props = OnConflictBuilder_props this
      in case parseNotExistFilter ps (parseContext props) arg of
           Inl e \<Rightarrow> Inl (Thrown e)
         | Inr frag \<Rightarrow>
             Inr (OnConflictBuilder
                    (props\<lparr>onConflictNode := cloneWithIndexOrWhere (onConflictNode props) frag\<rparr>)))"

definition OnConflictBuilder_doNothing ::
  "('f, 'x, 'u, 'c) OnConflictBuilder \<Rightarrow> ('f, 'x, 'u, 'c) OnConflictDoNothingBuilder"
where
  "OnConflictBuilder_doNothing this =
     (let props = OnConflictBuilder_props this
      in OnConflictDoNothingBuilder
           (props\<lparr>onConflictNode :=
              cloneWith (onConflictNode props) (no_props\<lparr>doNothing_prop := Some True\<rparr>)\<rparr>))"

definition OnConflictBuilder_doUpdateSet ::
  "('c, 'a, 'f, 'u) parsers \<Rightarrow> ('f, 'x, 'u, 'c) OnConflictBuilder \<Rightarrow> 'a \<Rightarrow>
   error + ('f, 'x, 'u, 'c) OnConflictUpdateBuilder"
where
  "OnConflictBuilder_doUpdateSet ps this upd =
     (let props = OnConflictBuilder_props this
      in case parseUpdateObject ps (parseContext props) upd of
           Inl e \<Rightarrow> Inl (Thrown e)
         | Inr parsed \<Rightarrow>
             Inr (OnConflictUpdateBuilder
                    (props\<lparr>onConflictNode :=
                       cloneWith (onConflictNode props)
                         (no_props\<lparr>updates_prop := Some parsed\<rparr>)\<rparr>)))"

subsection \<open>OnConflictDoNothingBuilder: terminal\<close>

definition OnConflictDoNothingBuilder_toOperationNode ::
  "('f, 'x, 'u, 'c) OnConflictDoNothingBuilder \<Rightarrow> ('f, 'x, 'u) OnConflictNode"
where
  "OnConflictDoNothingBuilder_toOperationNode this =
     onConflictNode (OnConflictDoNothingBuilder_props this)"

subsection \<open>OnConflictUpdateBuilder: update predicate\<close>

definition OnConflictUpdateBuilder_where ::
  "('c, 'a, 'f, 'u) parsers \<Rightarrow> ('f, 'x, 'u, 'c) OnConflictUpdateBuilder \<Rightarrow> 'a list \<Rightarrow>
   error + ('f, 'x, 'u, 'c) OnConflictUpdateBuilder"
where
  "OnConflictUpdateBuilder_where ps this args =
     (let props = OnConflictUpdateBuilder_props this
      in case parseWhereFilter ps (parseContext props) args of
           Inl e \<Rightarrow> Inl (Thrown e)
         | Inr frag \<Rightarrow>
             Inr (OnConflictUpdateBuilder
                    (props\<lparr>onConflictNode := cloneWithUpdateWhere (onConflictNode props) frag\<rparr>)))"

definition OnConflictUpdateBuilder_whereRef ::
  "('c, 'a, 'f, 'u) parsers \<Rightarrow> ('f, 'x, 'u, 'c) OnConflictUpdateBuilder \<Rightarrow> 'a \<Rightarrow> 'a \<Rightarrow> 'a \<Rightarrow>
   error + ('f, 'x, 'u, 'c) OnConflictUpdateBuilder"
where
  "OnConflictUpdateBuilder_whereRef ps this lhs op rhs =
     (let props = OnConflictUpdateBuilder_props this
      in case parseReferenceFilter ps (parseContext props) lhs op rhs of
           Inl e \<Rightarrow> Inl (Thrown e)
         | Inr frag \<Rightarrow>
             Inr (OnConflictUpdateBuilder
                    (props\<lparr>onConflictNode := cloneWithUpdateWhere (onConflictNode props) frag\<rparr>)))"

definition OnConflictUpdateBuilder_orWhere ::
  "('c, 'a, 'f, 'u) parsers \<Rightarrow> ('f, 'x, 'u, 'c) OnConflictUpdateBuilder \<Rightarrow> 'a list \<Rightarrow>
   error + ('f, 'x, 'u, 'c) OnConflictUpdateBuilder"
where
  "OnConflictUpdateBuilder_orWhere ps this args =
     (let props = OnConflictUpdateBuilder_props this
      in case parseWhereFilter ps (parseContext props) args of
           Inl e \<Rightarrow> Inl (Thrown e)
         | Inr frag \<Rightarrow>
             Inr (OnConflictUpdateBuilder
                    (props\<lparr>onConflictNode := cloneWithUpdateOrWhere (onConflictNode props) frag\<rparr>)))"

definition OnConflictUpdateBuilder_orWhereRef ::
  "('c, 'a, 'f, 'u) parsers \<Rightarrow> ('f, 'x, 'u, 'c) OnConflictUpdateBuilder \<Rightarrow> 'a \<Rightarrow> 'a \<Rightarrow> 'a \<Rightarrow>
   error + ('f, 'x, 'u, 'c) OnConflictUpdateBuilder"
where
  "OnConflictUpdateBuilder_orWhereRef ps this lhs op rhs =
     (let props = OnConflictUpdateBuilder_props this
      in case parseReferenceFilter ps (parseContext props) lhs op rhs of
           Inl e \<Rightarrow> Inl (Thrown e)
         | Inr frag \<Rightarrow>
             Inr (OnConflictUpdateBuilder
                    (props\<lparr>onConflictNode := cloneWithUpdateOrWhere (onConflictNode props) frag\<rparr>)))"

definition OnConflictUpdateBuilder_whereExists ::
  "('c, 'a, 'f, 'u) parsers \<Rightarrow> ('f, 'x, 'u, 'c) OnConflictUpdateBuilder \<Rightarrow> 'a \<Rightarrow>
   error + ('f, 'x, 'u, 'c) OnConflictUpdateBuilder"
where
  "OnConflictUpdateBuilder_whereExists ps this arg =
     (let props = OnConflictUpdateBuilder_props this
      in case parseExistFilter ps (parseContext props) arg of
           Inl e \<Rightarrow> Inl (Thrown e)
         | Inr frag \<Rightarrow>
             Inr (OnConflictUpdateBuilder
                    (props\<lparr>onConflictNode := cloneWithUpdateWhere (onConflictNode props) frag\<rparr>)))"

definition OnConflictUpdateBuilder_whereNotExists ::
  "('c, 'a, 'f, 'u) parsers \<Rightarrow> ('f, 'x, 'u, 'c) OnConflictUpdateBuilder \<Rightarrow> 'a \<Rightarrow>
   error + ('f, 'x, 'u, 'c) OnConflictUpdateBuilder"
where
  "OnConflictUpdateBuilder_whereNotExists ps this arg =
     (let props = OnConflictUpdateBuilder_props this
      in case parseNotExistFilter ps (parseContext props) arg of
           Inl e \<Rightarrow> Inl (Thrown e)
         | Inr frag \<Rightarrow>
             Inr (OnConflictUpdateBuilder
                    (props\<lparr>onConflictNode := cloneWithUpdateWhere (onConflictNode props) frag\<rparr>)))"

definition OnConflictUpdateBuilder_orWhereExists ::
  "('c, 'a, 'f, 'u) parsers \<Rightarrow> ('f, 'x, 'u, 'c) OnConflictUpdateBuilder \<Rightarrow> 'a \<Rightarrow>
   error + ('f, 'x, 'u, 'c) OnConflictUpdateBuilder"
where
  "OnConflictUpdateBuilder_orWhereExists ps this arg =
     (let props = OnConflictUpdateBuilder_props this
      in case parseExistFilter ps (parseContext props) arg of
           Inl e \<Rightarrow> Inl (Thrown e)
         | Inr frag \<Rightarrow>
             Inr (OnConflictUpdateBuilder
                    (props\<lparr>onConflictNode := cloneWithUpdateOrWhere (onConflictNode props) frag\<rparr>)))"

definition OnConflictUpdateBuilder_orWhereNotExists ::
  "('c, 'a, 'f, 'u) parsers \<Rightarrow> ('f, 'x, 'u, 'c) OnConflictUpdateBuilder \<Rightarrow> 'a \<Rightarrow>
   error + ('f, 'x, 'u, 'c) OnConflictUpdateBuilder"
where
  "OnConflictUpdateBuilder_orWhereNotExists ps this arg =
     (let props = OnConflictUpdateBuilder_props this
      in case parseNotExistFilter ps (parseContext props) arg of
           Inl e \<Rightarrow> Inl (Thrown e)
         | Inr frag \<Rightarrow>
             Inr (OnConflictUpdateBuilder
                    (props\<lparr>onConflictNode := cloneWithUpdateOrWhere (onConflictNode props) frag\<rparr>)))"

definition OnConflictUpdateBuilder_toOperationNode ::
  "('f, 'x, 'u, 'c) OnConflictUpdateBuilder \<Rightarrow> ('f, 'x, 'u) OnConflictNode"
where
  "OnConflictUpdateBuilder_toOperationNode this =
     onConflictNode (OnConflictUpdateBuilder_props this)"

section \<open>Calling a method on a builder object\<close>

text \<open>
  At run time a builder is an instance of one of the three classes, and a method call
  looks the method up in the class of the instance: a method the class does not
  declare is \<^verbatim>\<open>undefined\<close> and calling it throws a TypeError ("is not a
  function"). \<open>OnConflictBuilder\<close> declares the four target methods, the eight
  predicate methods and the two terminal methods; \<open>OnConflictDoNothingBuilder\<close>
  declares \<open>toOperationNode\<close> only; \<open>OnConflictUpdateBuilder\<close> declares the eight
  predicate methods and \<open>toOperationNode\<close>. (\<^verbatim>\<open>preventAwait\<close>, applied to each class, is
  not in the source at hand; it guards against awaiting a builder and is none of the
  builder operations.)
\<close>

datatype ('f, 'x, 'u, 'c) builder =
    IsOnConflictBuilder "('f, 'x, 'u, 'c) OnConflictBuilder"
  | IsOnConflictDoNothingBuilder "('f, 'x, 'u, 'c) OnConflictDoNothingBuilder"
  | IsOnConflictUpdateBuilder "('f, 'x, 'u, 'c) OnConflictUpdateBuilder"

datatype ('a, 'x) call =
    call_column string
  | call_columns "string list"
  | call_constraint string
  | call_expression "'x RawBuilder"
  | call_where "'a list"
  | call_whereRef 'a 'a 'a
  | call_orWhere "'a list"
  | call_orWhereRef 'a 'a 'a
  | call_whereExists 'a
  | call_whereNotExists 'a
  | call_orWhereExists 'a
  | call_orWhereNotExists 'a
  | call_doNothing
  | call_doUpdateSet 'a
  | call_toOperationNode

fun method_name :: "('a, 'x) call \<Rightarrow> string" where
  "method_name (call_column _) = ''column''"
| "method_name (call_columns _) = ''columns''"
| "method_name (call_constraint _) = ''constraint''"
| "method_name (call_expression _) = ''expression''"
| "method_name (call_where _) = ''where''"
| "method_name (call_whereRef _ _ _) = ''whereRef''"
| "method_name (call_orWhere _) = ''orWhere''"
| "method_name (call_orWhereRef _ _ _) = ''orWhereRef''"
| "method_name (call_whereExists _) = ''whereExists''"
| "method_name (call_whereNotExists _) = ''whereNotExists''"
| "method_name (call_orWhereExists _) = ''orWhereExists''"
| "method_name (call_orWhereNotExists _) = ''orWhereNotExists''"
| "method_name call_doNothing = ''doNothing''"
| "method_name (call_doUpdateSet _) = ''doUpdateSet''"
| "method_name call_toOperationNode = ''toOperationNode''"

datatype ('f, 'x, 'u, 'c) result =
    Builder "('f, 'x, 'u, 'c) builder"
  | Node "('f, 'x, 'u) OnConflictNode"

definition not_a_function :: "('a, 'x) call \<Rightarrow> error + 'r" where
  "not_a_function c = Inl (NotAFunction (method_name c))"

definition returning :: "('b \<Rightarrow> 'r) \<Rightarrow> error + 'b \<Rightarrow> error + 'r" where
  "returning wrap r = (case r of Inl e \<Rightarrow> Inl e | Inr b \<Rightarrow> Inr (wrap b))"

definition OnConflictBuilder_invoke ::
  "('c, 'a, 'f, 'u) parsers \<Rightarrow> ('f, 'x, 'u, 'c) OnConflictBuilder \<Rightarrow> ('a, 'x) call \<Rightarrow>
   error + ('f, 'x, 'u, 'c) result"
where
  "OnConflictBuilder_invoke ps this c =
     (case c of
        call_column x \<Rightarrow> Inr (Builder (IsOnConflictBuilder (OnConflictBuilder_column this x)))
      | call_columns xs \<Rightarrow> Inr (Builder (IsOnConflictBuilder (OnConflictBuilder_columns this xs)))
      | call_constraint n \<Rightarrow>
          Inr (Builder (IsOnConflictBuilder (OnConflictBuilder_constraint this n)))
      | call_expression e \<Rightarrow>
          Inr (Builder (IsOnConflictBuilder (OnConflictBuilder_expression this e)))
      | call_where args \<Rightarrow>
          returning (Builder \<circ> IsOnConflictBuilder) (OnConflictBuilder_where ps this args)
      | call_whereRef l op r \<Rightarrow>
          returning (Builder \<circ> IsOnConflictBuilder) (OnConflictBuilder_whereRef ps this l op r)
      | call_orWhere args \<Rightarrow>
          returning (Builder \<circ> IsOnConflictBuilder) (OnConflictBuilder_orWhere ps this args)
      | call_orWhereRef l op r \<Rightarrow>
          returning (Builder \<circ> IsOnConflictBuilder) (OnConflictBuilder_orWhereRef ps this l op r)
      | call_whereExists x \<Rightarrow>
          returning (Builder \<circ> IsOnConflictBuilder) (OnConflictBuilder_whereExists ps this x)
      | call_whereNotExists x \<Rightarrow>
          returning (Builder \<circ> IsOnConflictBuilder) (OnConflictBuilder_whereNotExists ps this x)
      | call_orWhereExists x \<Rightarrow>
          returning (Builder \<circ> IsOnConflictBuilder) (OnConflictBuilder_orWhereExists ps this x)
      | call_orWhereNotExists x \<Rightarrow>
          returning (Builder \<circ> IsOnConflictBuilder)
            (OnConflictBuilder_orWhereNotExists ps this x)
      | call_doNothing \<Rightarrow>
          Inr (Builder (IsOnConflictDoNothingBuilder (OnConflictBuilder_doNothing this)))
      | call_doUpdateSet m \<Rightarrow>
          returning (Builder \<circ> IsOnConflictUpdateBuilder)
            (OnConflictBuilder_doUpdateSet ps this m)
      | call_toOperationNode \<Rightarrow> not_a_function c)"

definition OnConflictDoNothingBuilder_invoke ::
  "('f, 'x, 'u, 'c) OnConflictDoNothingBuilder \<Rightarrow> ('a, 'x) call \<Rightarrow>
   error + ('f, 'x, 'u, 'c) result"
where
  "OnConflictDoNothingBuilder_invoke this c =
     (case c of
        call_toOperationNode \<Rightarrow> Inr (Node (OnConflictDoNothingBuilder_toOperationNode this))
      | _ \<Rightarrow> not_a_function c)"

definition OnConflictUpdateBuilder_invoke ::
  "('c, 'a, 'f, 'u) parsers \<Rightarrow> ('f, 'x, 'u, 'c) OnConflictUpdateBuilder \<Rightarrow> ('a, 'x) call \<Rightarrow>
   error + ('f, 'x, 'u, 'c) result"
where
  "OnConflictUpdateBuilder_invoke ps this c =
     (case c of
        call_where args \<Rightarrow>
          returning (Builder \<circ> IsOnConflictUpdateBuilder)
            (OnConflictUpdateBuilder_where ps this args)
      | call_whereRef l op r \<Rightarrow>
          returning (Builder \<circ> IsOnConflictUpdateBuilder)
            (OnConflictUpdateBuilder_whereRef ps this l op r)
      | call_orWhere args \<Rightarrow>
          returning (Builder \<circ> IsOnConflictUpdateBuilder)
            (OnConflictUpdateBuilder_orWhere ps this args)
      | call_orWhereRef l op r \<Rightarrow>
          returning (Builder \<circ> IsOnConflictUpdateBuilder)
            (OnConflictUpdateBuilder_orWhereRef ps this l op r)
      | call_whereExists x \<Rightarrow>
          returning (Builder \<circ> IsOnConflictUpdateBuilder)
            (OnConflictUpdateBuilder_whereExists ps this x)
      | call_whereNotExists x \<Rightarrow>
          returning (Builder \<circ> IsOnConflictUpdateBuilder)
            (OnConflictUpdateBuilder_whereNotExists ps this x)
      | call_orWhereExists x \<Rightarrow>
          returning (Builder \<circ> IsOnConflictUpdateBuilder)
            (OnConflictUpdateBuilder_orWhereExists ps this x)
      | call_orWhereNotExists x \<Rightarrow>
          returning (Builder \<circ> IsOnConflictUpdateBuilder)
            (OnConflictUpdateBuilder_orWhereNotExists ps this x)
      | call_toOperationNode \<Rightarrow> Inr (Node (OnConflictUpdateBuilder_toOperationNode this))
      | _ \<Rightarrow> not_a_function c)"

fun invoke ::
  "('c, 'a, 'f, 'u) parsers \<Rightarrow> ('f, 'x, 'u, 'c) builder \<Rightarrow> ('a, 'x) call \<Rightarrow>
   error + ('f, 'x, 'u, 'c) result"
where
  "invoke ps (IsOnConflictBuilder b) c = OnConflictBuilder_invoke ps b c"
| "invoke ps (IsOnConflictDoNothingBuilder b) c = OnConflictDoNothingBuilder_invoke b c"
| "invoke ps (IsOnConflictUpdateBuilder b) c = OnConflictUpdateBuilder_invoke ps b c"

text \<open>
  A chain of calls \<^verbatim>\<open>b.m1(..).m2(..)...\<close>: each call goes to the builder the previous
  one returned. A thrown error ends the chain; a descriptor (what \<open>toOperationNode\<close>
  returns) has none of the methods.
\<close>

fun chain ::
  "('c, 'a, 'f, 'u) parsers \<Rightarrow> ('f, 'x, 'u, 'c) result \<Rightarrow> ('a, 'x) call list \<Rightarrow>
   error + ('f, 'x, 'u, 'c) result"
where
  "chain ps r [] = Inr r"
| "chain ps (Builder b) (c # cs) =
     (case invoke ps b c of Inl e \<Rightarrow> Inl e | Inr r \<Rightarrow> chain ps r cs)"
| "chain ps (Node n) (c # cs) = not_a_function c"

text \<open>
  The builder the enclosing insert builder starts from: an empty descriptor and a
  parse context.
\<close>

definition initial :: "'c \<Rightarrow> ('f, 'x, 'u, 'c) OnConflictBuilder" where
  "initial ctx = OnConflictBuilder \<lparr>onConflictNode = OnConflictNode_create, parseContext = ctx\<rparr>"

text \<open>
  Parsers for concrete runs: arguments and fragments are natural numbers; a
  \<open>where\<close> argument list must have one element, and the argument \<open>0\<close> of an existence
  filter or of an update object is malformed.
\<close>

definition sample_parsers :: "(unit, nat, nat, nat list) parsers" where
  "sample_parsers =
     \<lparr>parseWhereFilter = (\<lambda>ctx args. case args of [x] \<Rightarrow> Inr (Filter x) | _ \<Rightarrow> Inl ''malformed''),
      parseReferenceFilter = (\<lambda>ctx l op r. Inr (Filter (l + op + r))),
      parseExistFilter = (\<lambda>ctx x. if x = 0 then Inl ''malformed'' else Inr (Filter x)),
      parseNotExistFilter = (\<lambda>ctx x. if x = 0 then Inl ''malformed'' else Inr (Filter (x + 100))),
      parseUpdateObject = (\<lambda>ctx m. if m = 0 then Inl ''malformed'' else Inr [m])\<rparr>"

section \<open>Objects in a store\<close>

text \<open>
  The builders again, with the objects of the program in a store: an instance of a
  builder class holds a reference to its props object, the props object a reference to
  the descriptor, the descriptor a reference to its array of column nodes. A call
  takes the store and the reference of the receiver and returns the reference of its
  result and the store after the call. Here a call that wrote into an object of the
  receiver would show. Column nodes, identifiers and predicate trees are values. Within
  one call the new objects are allocated in the order column array, descriptor, props,
  instance; the order has no bearing on what the objects hold.
\<close>

type_synonym ref = nat

datatype class_name =
  OnConflictBuilder_class | OnConflictDoNothingBuilder_class | OnConflictUpdateBuilder_class

datatype ('f, 'x, 'u, 'c) object =
    ArrayObject "ColumnNode list"
  | NodeObject "(ref, 'f, 'x, 'u) OnConflictNode_with"
  | PropsObject ref 'c
  | InstanceObject class_name ref

record ('f, 'x, 'u, 'c) cell =
  content :: "('f, 'x, 'u, 'c) object"
  frozen :: bool

type_synonym ('f, 'x, 'u, 'c) store = "('f, 'x, 'u, 'c) cell list"

text \<open>A new object goes to the end of the store.\<close>

definition allocate :: "('f, 'x, 'u, 'c) store \<Rightarrow> ('f, 'x, 'u, 'c) object \<Rightarrow> ref \<times> ('f, 'x, 'u, 'c) store" where
  "allocate s ob = (length s, s @ [\<lparr>content = ob, frozen = False\<rparr>])"

text \<open>
  Modelled from the spec: \<^verbatim>\<open>freeze\<close> of \<^verbatim>\<open>util/object-utils\<close> (not in the source at
  hand) marks the object it is given as frozen ("frozen builder instances") and returns
  it.
\<close>

definition freeze :: "('f, 'x, 'u, 'c) store \<Rightarrow> ref \<Rightarrow> ('f, 'x, 'u, 'c) store" where
  "freeze s r = (if r < length s then s[r := (s ! r)\<lparr>frozen := True\<rparr>] else s)"

text \<open>\<^verbatim>\<open>freeze\<close> of a new object, as in \<^verbatim>\<open>freeze([...])\<close>.\<close>

definition allocate_frozen ::
  "('f, 'x, 'u, 'c) store \<Rightarrow> ('f, 'x, 'u, 'c) object \<Rightarrow> ref \<times> ('f, 'x, 'u, 'c) store" where
  "allocate_frozen s ob = (let (r, s1) = allocate s ob in (r, freeze s1 r))"

text \<open>
  Reading through a reference. A reference that does not lead to an object of the
  expected kind is an error of the model (\<open>BadReference\<close>); a receiver that stands for
  a builder value (\<open>builder_value\<close> below) has none.
\<close>

definition lookup :: "('f, 'x, 'u, 'c) store \<Rightarrow> ref \<Rightarrow> error + ('f, 'x, 'u, 'c) object" where
  "lookup s r = (if r < length s then Inr (content (s ! r)) else Inl (BadReference r))"

definition array_at :: "('f, 'x, 'u, 'c) store \<Rightarrow> ref \<Rightarrow> error + ColumnNode list" where
  "array_at s r = (case lookup s r of Inr (ArrayObject xs) \<Rightarrow> Inr xs | _ \<Rightarrow> Inl (BadReference r))"

definition node_at ::
  "('f, 'x, 'u, 'c) store \<Rightarrow> ref \<Rightarrow> error + (ref, 'f, 'x, 'u) OnConflictNode_with" where
  "node_at s r = (case lookup s r of Inr (NodeObject n) \<Rightarrow> Inr n | _ \<Rightarrow> Inl (BadReference r))"

definition props_at :: "('f, 'x, 'u, 'c) store \<Rightarrow> ref \<Rightarrow> error + (ref \<times> 'c)" where
  "props_at s r =
     (case lookup s r of Inr (PropsObject n ctx) \<Rightarrow> Inr (n, ctx) | _ \<Rightarrow> Inl (BadReference r))"

definition instance_at :: "('f, 'x, 'u, 'c) store \<Rightarrow> ref \<Rightarrow> error + (class_name \<times> ref)" where
  "instance_at s r =
     (case lookup s r of Inr (InstanceObject cls p) \<Rightarrow> Inr (cls, p) | _ \<Rightarrow> Inl (BadReference r))"

text \<open>\<^verbatim>\<open>this.#props\<close>: its \<open>onConflictNode\<close> and its \<open>parseContext\<close>.\<close>

definition this_props :: "('f, 'x, 'u, 'c) store \<Rightarrow> ref \<Rightarrow> error + (ref \<times> 'c)" where
  "this_props s this = and_then (instance_at s this) (\<lambda>(cls, props). props_at s props)"

text \<open>What a parser throws ends the call.\<close>

definition thrown :: "string + 'v \<Rightarrow> error + 'v" where
  "thrown r = (case r of Inl e \<Rightarrow> Inl (Thrown e) | Inr v \<Rightarrow> Inr v)"

text \<open>
  Modelled from the spec: \<^verbatim>\<open>OnConflictNode.cloneWith\<close> (not in the source at hand) on
  the store. It returns a new, frozen descriptor ("replaces the whole descriptor with a
  new value holding the delta") and leaves the one it is given as it is; the contents
  are those of \<open>cloneWith\<close> above.
\<close>

definition st_cloneWith ::
  "('f, 'x, 'u, 'c) store \<Rightarrow> ref \<Rightarrow> (ref, 'x, 'u) OnConflictNodeProps \<Rightarrow> error + (ref \<times> ('f, 'x, 'u, 'c) store)"
where
  "st_cloneWith s node props =
     and_then (node_at s node) (\<lambda>n. Inr (allocate_frozen s (NodeObject (cloneWith n props))))"

text \<open>
  Modelled from the spec: \<^verbatim>\<open>OnConflictNode.cloneWithIndexWhere\<close> (not in the source at hand) on
  the store ("each returning a new tree"): a new, frozen descriptor with the contents of
  \<open>cloneWithIndexWhere\<close> above; the descriptor it is given stays as it is.
\<close>

definition st_cloneWithIndexWhere ::
  "('f, 'x, 'u, 'c) store \<Rightarrow> ref \<Rightarrow> 'f FilterNode \<Rightarrow> error + (ref \<times> ('f, 'x, 'u, 'c) store)"
where
  "st_cloneWithIndexWhere s node frag =
     and_then (node_at s node) (\<lambda>n. Inr (allocate_frozen s (NodeObject (cloneWithIndexWhere n frag))))"

text \<open>
  Modelled from the spec: \<^verbatim>\<open>OnConflictNode.cloneWithIndexOrWhere\<close> (not in the source at hand) on
  the store ("each returning a new tree"): a new, frozen descriptor with the contents of
  \<open>cloneWithIndexOrWhere\<close> above; the descriptor it is given stays as it is.
\<close>

definition st_cloneWithIndexOrWhere ::
  "('f, 'x, 'u, 'c) store \<Rightarrow> ref \<Rightarrow> 'f FilterNode \<Rightarrow> error + (ref \<times> ('f, 'x, 'u, 'c) store)"
where
  "st_cloneWithIndexOrWhere s node frag =
     and_then (node_at s node) (\<lambda>n. Inr (allocate_frozen s (NodeObject (cloneWithIndexOrWhere n frag))))"

text \<open>
  Modelled from the spec: \<^verbatim>\<open>OnConflictNode.cloneWithUpdateWhere\<close> (not in the source at hand) on
  the store ("each returning a new tree"): a new, frozen descriptor with the contents of
  \<open>cloneWithUpdateWhere\<close> above; the descriptor it is given stays as it is.
\<close>

definition st_cloneWithUpdateWhere ::
  "('f, 'x, 'u, 'c) store \<Rightarrow> ref \<Rightarrow> 'f FilterNode \<Rightarrow> error + (ref \<times> ('f, 'x, 'u, 'c) store)"
where
  "st_cloneWithUpdateWhere s node frag =
     and_then (node_at s node) (\<lambda>n. Inr (allocate_frozen s (NodeObject (cloneWithUpdateWhere n frag))))"

text \<open>
  Modelled from the spec: \<^verbatim>\<open>OnConflictNode.cloneWithUpdateOrWhere\<close> (not in the source at hand) on
  the store ("each returning a new tree"): a new, frozen descriptor with the contents of
  \<open>cloneWithUpdateOrWhere\<close> above; the descriptor it is given stays as it is.
\<close>

definition st_cloneWithUpdateOrWhere ::
  "('f, 'x, 'u, 'c) store \<Rightarrow> ref \<Rightarrow> 'f FilterNode \<Rightarrow> error + (ref \<times> ('f, 'x, 'u, 'c) store)"
where
  "st_cloneWithUpdateOrWhere s node frag =
     and_then (node_at s node) (\<lambda>n. Inr (allocate_frozen s (NodeObject (cloneWithUpdateOrWhere n frag))))"

text \<open>
  \<^verbatim>\<open>new C({...this.#props, onConflictNode: node})\<close>: the object literal is a new props
  object; the constructor freezes it and stores its reference in the new instance.
\<close>

definition construct :: "class_name \<Rightarrow> ('f, 'x, 'u, 'c) store \<Rightarrow> ref \<Rightarrow> ref \<times> ('f, 'x, 'u, 'c) store" where
  "construct cls s props = allocate (freeze s props) (InstanceObject cls props)"

definition new_builder ::
  "class_name \<Rightarrow> ('f, 'x, 'u, 'c) store \<Rightarrow> ref \<Rightarrow> 'c \<Rightarrow> ref \<times> ('f, 'x, 'u, 'c) store" where
  "new_builder cls s node ctx =
     (let (props, s1) = allocate s (PropsObject node ctx) in construct cls s1 props)"

subsection \<open>OnConflictBuilder on the store\<close>

definition st_OnConflictBuilder_column ::
  "('f, 'x, 'u, 'c) store \<Rightarrow> ref \<Rightarrow> string \<Rightarrow> error + (ref \<times> ('f, 'x, 'u, 'c) store)"
where
  "st_OnConflictBuilder_column s this column =
     and_then (this_props s this) (\<lambda>(node, ctx).
     and_then (node_at s node) (\<lambda>n.
     let columnNode = ColumnNode_create column in
     and_then (case columns n of
                 Some a \<Rightarrow>
                   and_then (array_at s a) (\<lambda>cs.
                   Inr (allocate_frozen s (ArrayObject (cs @ [columnNode]))))
               | None \<Rightarrow> Inr (allocate_frozen s (ArrayObject [columnNode]))) (\<lambda>(arr, s1).
     and_then (st_cloneWith s1 node (no_props\<lparr>columns_prop := Some arr\<rparr>)) (\<lambda>(node', s2).
     Inr (new_builder OnConflictBuilder_class s2 node' ctx)))))"

definition st_OnConflictBuilder_columns ::
  "('f, 'x, 'u, 'c) store \<Rightarrow> ref \<Rightarrow> string list \<Rightarrow> error + (ref \<times> ('f, 'x, 'u, 'c) store)"
where
  "st_OnConflictBuilder_columns s this cols =
     and_then (this_props s this) (\<lambda>(node, ctx).
     and_then (node_at s node) (\<lambda>n.
     let columnNodes = map ColumnNode_create cols in
     and_then (case columns n of
                 Some a \<Rightarrow>
                   and_then (array_at s a) (\<lambda>cs.
                   Inr (allocate_frozen s (ArrayObject (cs @ columnNodes))))
               | None \<Rightarrow> Inr (allocate_frozen s (ArrayObject columnNodes))) (\<lambda>(arr, s1).
     and_then (st_cloneWith s1 node (no_props\<lparr>columns_prop := Some arr\<rparr>)) (\<lambda>(node', s2).
     Inr (new_builder OnConflictBuilder_class s2 node' ctx)))))"

definition st_OnConflictBuilder_constraint ::
  "('f, 'x, 'u, 'c) store \<Rightarrow> ref \<Rightarrow> string \<Rightarrow> error + (ref \<times> ('f, 'x, 'u, 'c) store)"
where
  "st_OnConflictBuilder_constraint s this constraintName =
     and_then (this_props s this) (\<lambda>(node, ctx).
     and_then (st_cloneWith s node
                 (no_props\<lparr>constraint_prop := Some (IdentifierNode_create constraintName)\<rparr>))
       (\<lambda>(node', s1).
     Inr (new_builder OnConflictBuilder_class s1 node' ctx)))"

definition st_OnConflictBuilder_expression ::
  "('f, 'x, 'u, 'c) store \<Rightarrow> ref \<Rightarrow> 'x RawBuilder \<Rightarrow> error + (ref \<times> ('f, 'x, 'u, 'c) store)"
where
  "st_OnConflictBuilder_expression s this expression =
     and_then (this_props s this) (\<lambda>(node, ctx).
     and_then (st_cloneWith s node
                 (no_props\<lparr>indexExpression_prop :=
                    Some (RawBuilder_toOperationNode expression)\<rparr>))
       (\<lambda>(node', s1).
     Inr (new_builder OnConflictBuilder_class s1 node' ctx)))"

definition st_OnConflictBuilder_where ::
  "('c, 'a, 'f, 'u) parsers \<Rightarrow> ('f, 'x, 'u, 'c) store \<Rightarrow> ref \<Rightarrow> 'a list \<Rightarrow>
   error + (ref \<times> ('f, 'x, 'u, 'c) store)"
where
  "st_OnConflictBuilder_where ps s this args =
     and_then (this_props s this) (\<lambda>(node, ctx).
     and_then (thrown (parseWhereFilter ps ctx args)) (\<lambda>frag.
     and_then (st_cloneWithIndexWhere s node frag) (\<lambda>(node', s1).
     Inr (new_builder OnConflictBuilder_class s1 node' ctx))))"

definition st_OnConflictBuilder_whereRef ::
  "('c, 'a, 'f, 'u) parsers \<Rightarrow> ('f, 'x, 'u, 'c) store \<Rightarrow> ref \<Rightarrow> 'a \<Rightarrow> 'a \<Rightarrow> 'a \<Rightarrow>
   error + (ref \<times> ('f, 'x, 'u, 'c) store)"
where
  "st_OnConflictBuilder_whereRef ps s this lhs op rhs =
     and_then (this_props s this) (\<lambda>(node, ctx).
     and_then (thrown (parseReferenceFilter ps ctx lhs op rhs)) (\<lambda>frag.
     and_then (st_cloneWithIndexWhere s node frag) (\<lambda>(node', s1).
     Inr (new_builder OnConflictBuilder_class s1 node' ctx))))"

definition st_OnConflictBuilder_orWhere ::
  "('c, 'a, 'f, 'u) parsers \<Rightarrow> ('f, 'x, 'u, 'c) store \<Rightarrow> ref \<Rightarrow> 'a list \<Rightarrow>
   error + (ref \<times> ('f, 'x, 'u, 'c) store)"
where
  "st_OnConflictBuilder_orWhere ps s this args =
     and_then (this_props s this) (\<lambda>(node, ctx).
     and_then (thrown (parseWhereFilter ps ctx args)) (\<lambda>frag.
     and_then (st_cloneWithIndexOrWhere s node frag) (\<lambda>(node', s1).
     Inr (new_builder OnConflictBuilder_class s1 node' ctx))))"

definition st_OnConflictBuilder_orWhereRef ::
  "('c, 'a, 'f, 'u) parsers \<Rightarrow> ('f, 'x, 'u, 'c) store \<Rightarrow> ref \<Rightarrow> 'a \<Rightarrow> 'a \<Rightarrow> 'a \<Rightarrow>
   error + (ref \<times> ('f, 'x, 'u, 'c) store)"
where
  "st_OnConflictBuilder_orWhereRef ps s this lhs op rhs =
     and_then (this_props s this) (\<lambda>(node, ctx).
     and_then (thrown (parseReferenceFilter ps ctx lhs op rhs)) (\<lambda>frag.
     and_then (st_cloneWithIndexOrWhere s node frag) (\<lambda>(node', s1).
     Inr (new_builder OnConflictBuilder_class s1 node' ctx))))"

definition st_OnConflictBuilder_whereExists ::
  "('c, 'a, 'f, 'u) parsers \<Rightarrow> ('f, 'x, 'u, 'c) store \<Rightarrow> ref \<Rightarrow> 'a \<Rightarrow>
   error + (ref \<times> ('f, 'x, 'u, 'c) store)"
where
  "st_OnConflictBuilder_whereExists ps s this arg =
     and_then (this_props s this) (\<lambda>(node, ctx).
     and_then (thrown (parseExistFilter ps ctx arg)) (\<lambda>frag.
     and_then (st_cloneWithIndexWhere s node frag) (\<lambda>(node', s1).
     Inr (new_builder OnConflictBuilder_class s1 node' ctx))))"

definition st_OnConflictBuilder_whereNotExists ::
  "('c, 'a, 'f, 'u) parsers \<Rightarrow> ('f, 'x, 'u, 'c) store \<Rightarrow> ref \<Rightarrow> 'a \<Rightarrow>
   error + (ref \<times> ('f, 'x, 'u, 'c) store)"
where
  "st_OnConflictBuilder_whereNotExists ps s this arg =
     and_then (this_props s this) (\<lambda>(node, ctx).
     and_then (thrown (parseNotExistFilter ps ctx arg)) (\<lambda>frag.
     and_then (st_cloneWithIndexWhere s node frag) (\<lambda>(node', s1).
     Inr (new_builder OnConflictBuilder_class s1 node' ctx))))"

definition st_OnConflictBuilder_orWhereExists ::
  "('c, 'a, 'f, 'u) parsers \<Rightarrow> ('f, 'x, 'u, 'c) store \<Rightarrow> ref \<Rightarrow> 'a \<Rightarrow>
   error + (ref \<times> ('f, 'x, 'u, 'c) store)"
where
  "st_OnConflictBuilder_orWhereExists ps s this arg =
     and_then (this_props s this) (\<lambda>(node, ctx).
     and_then (thrown (parseExistFilter ps ctx arg)) (\<lambda>frag.
     and_then (st_cloneWithIndexOrWhere s node frag) (\<lambda>(node', s1).
     Inr (new_builder OnConflictBuilder_class s1 node' ctx))))"

definition st_OnConflictBuilder_orWhereNotExists ::
  "('c, 'a, 'f, 'u) parsers \<Rightarrow> ('f, 'x, 'u, 'c) store \<Rightarrow> ref \<Rightarrow> 'a \<Rightarrow>
   error + (ref \<times> ('f, 'x, 'u, 'c) store)"
where
  "st_OnConflictBuilder_orWhereNotExists ps s this arg =
     and_then (this_props s this) (\<lambda>(node, ctx).
     and_then (thrown (parseNotExistFilter ps ctx arg)) (\<lambda>frag.
     and_then (st_cloneWithIndexOrWhere s node frag) (\<lambda>(node', s1).
     Inr (new_builder OnConflictBuilder_class s1 node' ctx))))"

definition st_OnConflictBuilder_doNothing ::
  "('f, 'x, 'u, 'c) store \<Rightarrow> ref \<Rightarrow> error + (ref \<times> ('f, 'x, 'u, 'c) store)"
where
  "st_OnConflictBuilder_doNothing s this =
     and_then (this_props s this) (\<lambda>(node, ctx).
     and_then (st_cloneWith s node (no_props\<lparr>doNothing_prop := Some True\<rparr>)) (\<lambda>(node', s1).
     Inr (new_builder OnConflictDoNothingBuilder_class s1 node' ctx)))"

definition st_OnConflictBuilder_doUpdateSet ::
  "('c, 'a, 'f, 'u) parsers \<Rightarrow> ('f, 'x, 'u, 'c) store \<Rightarrow> ref \<Rightarrow> 'a \<Rightarrow> error + (ref \<times> ('f, 'x, 'u, 'c) store)"
where
  "st_OnConflictBuilder_doUpdateSet ps s this upd =
     and_then (this_props s this) (\<lambda>(node, ctx).
     and_then (thrown (parseUpdateObject ps ctx upd)) (\<lambda>parsed.
     and_then (st_cloneWith s node (no_props\<lparr>updates_prop := Some parsed\<rparr>)) (\<lambda>(node', s1).
     Inr (new_builder OnConflictUpdateBuilder_class s1 node' ctx))))"

subsection \<open>The terminal builders on the store\<close>

text \<open>\<open>toOperationNode\<close> of either terminal class returns \<^verbatim>\<open>this.#props.onConflictNode\<close>.\<close>

definition st_toOperationNode :: "('f, 'x, 'u, 'c) store \<Rightarrow> ref \<Rightarrow> error + ref" where
  "st_toOperationNode s this = and_then (this_props s this) (\<lambda>(node, ctx). Inr node)"

definition st_OnConflictUpdateBuilder_where ::
  "('c, 'a, 'f, 'u) parsers \<Rightarrow> ('f, 'x, 'u, 'c) store \<Rightarrow> ref \<Rightarrow> 'a list \<Rightarrow>
   error + (ref \<times> ('f, 'x, 'u, 'c) store)"
where
  "st_OnConflictUpdateBuilder_where ps s this args =
     and_then (this_props s this) (\<lambda>(node, ctx).
     and_then (thrown (parseWhereFilter ps ctx args)) (\<lambda>frag.
     and_then (st_cloneWithUpdateWhere s node frag) (\<lambda>(node', s1).
     Inr (new_builder OnConflictUpdateBuilder_class s1 node' ctx))))"

definition st_OnConflictUpdateBuilder_whereRef ::
  "('c, 'a, 'f, 'u) parsers \<Rightarrow> ('f, 'x, 'u, 'c) store \<Rightarrow> ref \<Rightarrow> 'a \<Rightarrow> 'a \<Rightarrow> 'a \<Rightarrow>
   error + (ref \<times> ('f, 'x, 'u, 'c) store)"
where
  "st_OnConflictUpdateBuilder_whereRef ps s this lhs op rhs =
     and_then (this_props s this) (\<lambda>(node, ctx).
     and_then (thrown (parseReferenceFilter ps ctx lhs op rhs)) (\<lambda>frag.
     and_then (st_cloneWithUpdateWhere s node frag) (\<lambda>(node', s1).
     Inr (new_builder OnConflictUpdateBuilder_class s1 node' ctx))))"

definition st_OnConflictUpdateBuilder_orWhere ::
  "('c, 'a, 'f, 'u) parsers \<Rightarrow> ('f, 'x, 'u, 'c) store \<Rightarrow> ref \<Rightarrow> 'a list \<Rightarrow>
   error + (ref \<times> ('f, 'x, 'u, 'c) store)"
where
  "st_OnConflictUpdateBuilder_orWhere ps s this args =
     and_then (this_props s this) (\<lambda>(node, ctx).
     and_then (thrown (parseWhereFilter ps ctx args)) (\<lambda>frag.
     and_then (st_cloneWithUpdateOrWhere s node frag) (\<lambda>(node', s1).
     Inr (new_builder OnConflictUpdateBuilder_class s1 node' ctx))))"

definition st_OnConflictUpdateBuilder_orWhereRef ::
  "('c, 'a, 'f, 'u) parsers \<Rightarrow> ('f, 'x, 'u, 'c) store \<Rightarrow> ref \<Rightarrow> 'a \<Rightarrow> 'a \<Rightarrow> 'a \<Rightarrow>
   error + (ref \<times> ('f, 'x, 'u, 'c) store)"
where
  "st_OnConflictUpdateBuilder_orWhereRef ps s this lhs op rhs =
     and_then (this_props s this) (\<lambda>(node, ctx).
     and_then (thrown (parseReferenceFilter ps ctx lhs op rhs)) (\<lambda>frag.
     and_then (st_cloneWithUpdateOrWhere s node frag) (\<lambda>(node', s1).
     Inr (new_builder OnConflictUpdateBuilder_class s1 node' ctx))))"

definition st_OnConflictUpdateBuilder_whereExists ::
  "('c, 'a, 'f, 'u) parsers \<Rightarrow> ('f, 'x, 'u, 'c) store \<Rightarrow> ref \<Rightarrow> 'a \<Rightarrow>
   error + (ref \<times> ('f, 'x, 'u, 'c) store)"
where
  "st_OnConflictUpdateBuilder_whereExists ps s this arg =
     and_then (this_props s this) (\<lambda>(node, ctx).
     and_then (thrown (parseExistFilter ps ctx arg)) (\<lambda>frag.
     and_then (st_cloneWithUpdateWhere s node frag) (\<lambda>(node', s1).
     Inr (new_builder OnConflictUpdateBuilder_class s1 node' ctx))))"

definition st_OnConflictUpdateBuilder_whereNotExists ::
  "('c, 'a, 'f, 'u) parsers \<Rightarrow> ('f, 'x, 'u, 'c) store \<Rightarrow> ref \<Rightarrow> 'a \<Rightarrow>
   error + (ref \<times> ('f, 'x, 'u, 'c) store)"
where
  "st_OnConflictUpdateBuilder_whereNotExists ps s this arg =
     and_then (this_props s this) (\<lambda>(node, ctx).
     and_then (thrown (parseNotExistFilter ps ctx arg)) (\<lambda>frag.
     and_then (st_cloneWithUpdateWhere s node frag) (\<lambda>(node', s1).
     Inr (new_builder OnConflictUpdateBuilder_class s1 node' ctx))))"

definition st_OnConflictUpdateBuilder_orWhereExists ::
  "('c, 'a, 'f, 'u) parsers \<Rightarrow> ('f, 'x, 'u, 'c) store \<Rightarrow> ref \<Rightarrow> 'a \<Rightarrow>
   error + (ref \<times> ('f, 'x, 'u, 'c) store)"
where
  "st_OnConflictUpdateBuilder_orWhereExists ps s this arg =
     and_then (this_props s this) (\<lambda>(node, ctx).
     and_then (thrown (parseExistFilter ps ctx arg)) (\<lambda>frag.
     and_then (st_cloneWithUpdateOrWhere s node frag) (\<lambda>(node', s1).
     Inr (new_builder OnConflictUpdateBuilder_class s1 node' ctx))))"

definition st_OnConflictUpdateBuilder_orWhereNotExists ::
  "('c, 'a, 'f, 'u) parsers \<Rightarrow> ('f, 'x, 'u, 'c) store \<Rightarrow> ref \<Rightarrow> 'a \<Rightarrow>
   error + (ref \<times> ('f, 'x, 'u, 'c) store)"
where
  "st_OnConflictUpdateBuilder_orWhereNotExists ps s this arg =
     and_then (this_props s this) (\<lambda>(node, ctx).
     and_then (thrown (parseNotExistFilter ps ctx arg)) (\<lambda>frag.
     and_then (st_cloneWithUpdateOrWhere s node frag) (\<lambda>(node', s1).
     Inr (new_builder OnConflictUpdateBuilder_class s1 node' ctx))))"

subsection \<open>Calls on the store\<close>

datatype st_result = BuilderAt ref | NodeAt ref

definition built :: "error + (ref \<times> ('f, 'x, 'u, 'c) store) \<Rightarrow> error + (st_result \<times> ('f, 'x, 'u, 'c) store)" where
  "built r = (case r of Inl e \<Rightarrow> Inl e | Inr (b, s) \<Rightarrow> Inr (BuilderAt b, s))"

definition st_OnConflictBuilder_invoke ::
  "('c, 'a, 'f, 'u) parsers \<Rightarrow> ('f, 'x, 'u, 'c) store \<Rightarrow> ref \<Rightarrow> ('a, 'x) call \<Rightarrow>
   error + (st_result \<times> ('f, 'x, 'u, 'c) store)"
where
  "st_OnConflictBuilder_invoke ps s this c =
     (case c of
        call_column x \<Rightarrow> built (st_OnConflictBuilder_column s this x)
      | call_columns xs \<Rightarrow> built (st_OnConflictBuilder_columns s this xs)
      | call_constraint n \<Rightarrow> built (st_OnConflictBuilder_constraint s this n)
      | call_expression e \<Rightarrow> built (st_OnConflictBuilder_expression s this e)
      | call_where args \<Rightarrow> built (st_OnConflictBuilder_where ps s this args)
      | call_whereRef l op r \<Rightarrow> built (st_OnConflictBuilder_whereRef ps s this l op r)
      | call_orWhere args \<Rightarrow> built (st_OnConflictBuilder_orWhere ps s this args)
      | call_orWhereRef l op r \<Rightarrow> built (st_OnConflictBuilder_orWhereRef ps s this l op r)
      | call_whereExists x \<Rightarrow> built (st_OnConflictBuilder_whereExists ps s this x)
      | call_whereNotExists x \<Rightarrow> built (st_OnConflictBuilder_whereNotExists ps s this x)
      | call_orWhereExists x \<Rightarrow> built (st_OnConflictBuilder_orWhereExists ps s this x)
      | call_orWhereNotExists x \<Rightarrow> built (st_OnConflictBuilder_orWhereNotExists ps s this x)
      | call_doNothing \<Rightarrow> built (st_OnConflictBuilder_doNothing s this)
      | call_doUpdateSet m \<Rightarrow> built (st_OnConflictBuilder_doUpdateSet ps s this m)
      | call_toOperationNode \<Rightarrow> not_a_function c)"

definition st_OnConflictDoNothingBuilder_invoke ::
  "('f, 'x, 'u, 'c) store \<Rightarrow> ref \<Rightarrow> ('a, 'x) call \<Rightarrow> error + (st_result \<times> ('f, 'x, 'u, 'c) store)"
where
  "st_OnConflictDoNothingBuilder_invoke s this c =
     (case c of
        call_toOperationNode \<Rightarrow> and_then (st_toOperationNode s this) (\<lambda>n. Inr (NodeAt n, s))
      | _ \<Rightarrow> not_a_function c)"

definition st_OnConflictUpdateBuilder_invoke ::
  "('c, 'a, 'f, 'u) parsers \<Rightarrow> ('f, 'x, 'u, 'c) store \<Rightarrow> ref \<Rightarrow> ('a, 'x) call \<Rightarrow>
   error + (st_result \<times> ('f, 'x, 'u, 'c) store)"
where
  "st_OnConflictUpdateBuilder_invoke ps s this c =
     (case c of
        call_where args \<Rightarrow> built (st_OnConflictUpdateBuilder_where ps s this args)
      | call_whereRef l op r \<Rightarrow> built (st_OnConflictUpdateBuilder_whereRef ps s this l op r)
      | call_orWhere args \<Rightarrow> built (st_OnConflictUpdateBuilder_orWhere ps s this args)
      | call_orWhereRef l op r \<Rightarrow> built (st_OnConflictUpdateBuilder_orWhereRef ps s this l op r)
      | call_whereExists x \<Rightarrow> built (st_OnConflictUpdateBuilder_whereExists ps s this x)
      | call_whereNotExists x \<Rightarrow> built (st_OnConflictUpdateBuilder_whereNotExists ps s this x)
      | call_orWhereExists x \<Rightarrow> built (st_OnConflictUpdateBuilder_orWhereExists ps s this x)
      | call_orWhereNotExists x \<Rightarrow>
          built (st_OnConflictUpdateBuilder_orWhereNotExists ps s this x)
      | call_toOperationNode \<Rightarrow> and_then (st_toOperationNode s this) (\<lambda>n. Inr (NodeAt n, s))
      | _ \<Rightarrow> not_a_function c)"

text \<open>A call on a reference goes to the class of the instance found there.\<close>

definition st_invoke ::
  "('c, 'a, 'f, 'u) parsers \<Rightarrow> ('f, 'x, 'u, 'c) store \<Rightarrow> ref \<Rightarrow> ('a, 'x) call \<Rightarrow>
   error + (st_result \<times> ('f, 'x, 'u, 'c) store)"
where
  "st_invoke ps s this c =
     and_then (instance_at s this) (\<lambda>(cls, props).
       case cls of
         OnConflictBuilder_class \<Rightarrow> st_OnConflictBuilder_invoke ps s this c
       | OnConflictDoNothingBuilder_class \<Rightarrow> st_OnConflictDoNothingBuilder_invoke s this c
       | OnConflictUpdateBuilder_class \<Rightarrow> st_OnConflictUpdateBuilder_invoke ps s this c)"

text \<open>
  Any calls, one after the other, each on some builder of the store as it is by then
  (the receiver again or a builder an earlier call returned). A call that throws
  leaves nothing behind that a reference leads to.
\<close>

fun st_calls ::
  "('c, 'a, 'f, 'u) parsers \<Rightarrow> ('f, 'x, 'u, 'c) store \<Rightarrow> (ref \<times> ('a, 'x) call) list \<Rightarrow> ('f, 'x, 'u, 'c) store"
where
  "st_calls ps s [] = s"
| "st_calls ps s ((this, c) # rest) =
     (case st_invoke ps s this c of
        Inl e \<Rightarrow> st_calls ps s rest
      | Inr (r, s') \<Rightarrow> st_calls ps s' rest)"

text \<open>
  The descriptor behind a reference, as a value: the node with the contents of its
  column array in place of the reference to it.
\<close>

definition node_value :: "('f, 'x, 'u, 'c) store \<Rightarrow> ref \<Rightarrow> error + ('f, 'x, 'u) OnConflictNode" where
  "node_value s r =
     and_then (node_at s r) (\<lambda>n.
     and_then (case columns n of
                 None \<Rightarrow> Inr None
               | Some a \<Rightarrow> and_then (array_at s a) (\<lambda>cs. Inr (Some cs))) (\<lambda>cols.
     Inr \<lparr>columns = cols, constraint = constraint n, indexExpression = indexExpression n,
          indexWhere = indexWhere n, updates = updates n, updateWhere = updateWhere n,
          doNothing = doNothing n\<rparr>))"

subsection \<open>What a store stands for\<close>

text \<open>
  The builder value behind a reference: the class of the instance, with the descriptor
  value and the parse context of its props. A reference returned by a call stands for a
  builder value or, for \<open>toOperationNode\<close>, for a descriptor value.
\<close>

definition instance_value ::
  "class_name \<Rightarrow> ('f, 'x, 'u, 'c) OnConflictBuilderProps \<Rightarrow> ('f, 'x, 'u, 'c) builder" where
  "instance_value cls p =
     (case cls of
        OnConflictBuilder_class \<Rightarrow> IsOnConflictBuilder (OnConflictBuilder p)
      | OnConflictDoNothingBuilder_class \<Rightarrow>
          IsOnConflictDoNothingBuilder (OnConflictDoNothingBuilder p)
      | OnConflictUpdateBuilder_class \<Rightarrow>
          IsOnConflictUpdateBuilder (OnConflictUpdateBuilder p))"

definition builder_value ::
  "('f, 'x, 'u, 'c) store \<Rightarrow> ref \<Rightarrow> error + ('f, 'x, 'u, 'c) builder" where
  "builder_value s b =
     and_then (instance_at s b) (\<lambda>(cls, props).
     and_then (props_at s props) (\<lambda>(node, ctx).
     and_then (node_value s node) (\<lambda>d.
     Inr (instance_value cls \<lparr>onConflictNode = d, parseContext = ctx\<rparr>))))"

fun result_value ::
  "('f, 'x, 'u, 'c) store \<Rightarrow> st_result \<Rightarrow> error + ('f, 'x, 'u, 'c) result" where
  "result_value s (BuilderAt b) = returning Builder (builder_value s b)"
| "result_value s (NodeAt n) = returning Node (node_value s n)"

text \<open>
  A descriptor object \<open>n\<close> of the store \<open>s\<close> stands for the descriptor value \<open>d\<close>: the
  same fields, and the column array of \<open>n\<close> holds the column list of \<open>d\<close>.
\<close>

definition node_rel ::
  "('f, 'x, 'u, 'c) store \<Rightarrow> (ref, 'f, 'x, 'u) OnConflictNode_with \<Rightarrow>
   ('f, 'x, 'u) OnConflictNode \<Rightarrow> bool" where
  "node_rel s n d \<longleftrightarrow>
     (case columns n of
        None \<Rightarrow> columns d = None
      | Some a \<Rightarrow> (case array_at s a of Inr cs \<Rightarrow> columns d = Some cs | Inl e \<Rightarrow> False))
     \<and> constraint d = constraint n \<and> indexExpression d = indexExpression n
     \<and> indexWhere d = indexWhere n \<and> updates d = updates n
     \<and> updateWhere d = updateWhere n \<and> doNothing d = doNothing n"

text \<open>
  The result \<open>r\<close> of a call that took the store from \<open>s\<close> to \<open>s'\<close> is new: a builder
  is an instance allocated by the call, holding props allocated by the call, holding a
  descriptor allocated by the call; a descriptor is returned with the store as it was.
\<close>

fun returns_new :: "('f, 'x, 'u, 'c) store \<Rightarrow> ('f, 'x, 'u, 'c) store \<Rightarrow> st_result \<Rightarrow> bool" where
  "returns_new s s' (BuilderAt b) =
     (length s \<le> b \<and>
      (case instance_at s' b of
         Inr (cls, p) \<Rightarrow>
           length s \<le> p \<and>
           (case props_at s' p of
              Inr (n, ctx) \<Rightarrow> length s \<le> n \<and> (case node_at s' n of Inr d \<Rightarrow> True | Inl e \<Rightarrow> False)
            | Inl e \<Rightarrow> False)
       | Inl e \<Rightarrow> False))"
| "returns_new s s' (NodeAt n) = (s' = s)"

text \<open>
  A store for concrete runs: the initial builder (reference 2) and the builder its
  \<open>doNothing()\<close> returned (reference 5).
\<close>

definition sample_store :: "(nat, string, nat list, unit) store" where
  "sample_store =
     [\<lparr>content = NodeObject OnConflictNode_create, frozen = True\<rparr>,
      \<lparr>content = PropsObject 0 (), frozen = True\<rparr>,
      \<lparr>content = InstanceObject OnConflictBuilder_class 1, frozen = False\<rparr>,
      \<lparr>content = NodeObject (OnConflictNode_create\<lparr>doNothing := Some True\<rparr>), frozen = True\<rparr>,
      \<lparr>content = PropsObject 3 (), frozen = True\<rparr>,
      \<lparr>content = InstanceObject OnConflictDoNothingBuilder_class 4, frozen = False\<rparr>]"

section \<open>Vocabulary of the properties\<close>

abbreviation descriptor ::
  "('f, 'x, 'u, 'c) OnConflictBuilder \<Rightarrow> ('f, 'x, 'u) OnConflictNode" where
  "descriptor b \<equiv> onConflictNode (OnConflictBuilder_props b)"

abbreviation update_descriptor ::
  "('f, 'x, 'u, 'c) OnConflictUpdateBuilder \<Rightarrow> ('f, 'x, 'u) OnConflictNode" where
  "update_descriptor b \<equiv> onConflictNode (OnConflictUpdateBuilder_props b)"

text \<open>The expression \<^verbatim>\<open>b.where(a1).orWhere(a2).where(a3)\<close>.\<close>

definition where_orWhere_where ::
  "('c, 'a, 'f, 'u) parsers \<Rightarrow> ('f, 'x, 'u, 'c) OnConflictBuilder \<Rightarrow>
   'a list \<Rightarrow> 'a list \<Rightarrow> 'a list \<Rightarrow> error + ('f, 'x, 'u, 'c) OnConflictBuilder"
where
  "where_orWhere_where ps b a1 a2 a3 =
     and_then (and_then (OnConflictBuilder_where ps b a1)
                 (\<lambda>b1. OnConflictBuilder_orWhere ps b1 a2))
       (\<lambda>b2. OnConflictBuilder_where ps b2 a3)"

text \<open>The index predicate of the builder a call or a chain of calls returned.\<close>

definition indexPredicate_after ::
  "error + ('f, 'x, 'u, 'c) OnConflictBuilder \<Rightarrow> error + 'f FilterNode option" where
  "indexPredicate_after r = returning (\<lambda>b. indexWhere (descriptor b)) r"

text \<open>A sequence of \<open>column\<close> and \<open>columns\<close> calls, and the names it supplies.\<close>

datatype column_call = Column string | Columns "string list"

fun apply_column_call ::
  "('f, 'x, 'u, 'c) OnConflictBuilder \<Rightarrow> column_call \<Rightarrow> ('f, 'x, 'u, 'c) OnConflictBuilder"
where
  "apply_column_call b (Column c) = OnConflictBuilder_column b c"
| "apply_column_call b (Columns cs) = OnConflictBuilder_columns b cs"

fun supplied :: "column_call \<Rightarrow> string list" where
  "supplied (Column c) = [c]"
| "supplied (Columns cs) = cs"

definition apply_column_calls ::
  "('f, 'x, 'u, 'c) OnConflictBuilder \<Rightarrow> column_call list \<Rightarrow> ('f, 'x, 'u, 'c) OnConflictBuilder"
where
  "apply_column_calls b calls = foldl apply_column_call b calls"

text \<open>The column list of a descriptor, empty when the descriptor has none.\<close>

definition present :: "'a list option \<Rightarrow> 'a list" where
  "present xs = (case xs of None \<Rightarrow> [] | Some ys \<Rightarrow> ys)"

text \<open>The method names, grouped as the properties speak of them.\<close>

definition target_methods :: "string list" where
  "target_methods = [''column'', ''columns'', ''constraint'', ''expression'']"

definition predicate_methods :: "string list" where
  "predicate_methods =
     [''where'', ''orWhere'', ''whereRef'', ''orWhereRef'', ''whereExists'', ''whereNotExists'',
      ''orWhereExists'', ''orWhereNotExists'']"

definition terminal_methods :: "string list" where
  "terminal_methods = [''doNothing'', ''doUpdateSet'']"

text \<open>
  The update builder \<open>u\<close> with the update predicate \<open>t\<close> in place of its own, and
  the relation between two descriptors that have the same target and index predicate.
\<close>

abbreviation with_updateWhere ::
  "('f, 'x, 'u, 'c) OnConflictUpdateBuilder \<Rightarrow> 'f FilterNode \<Rightarrow> ('f, 'x, 'u, 'c) OnConflictUpdateBuilder"
where
  "with_updateWhere u t \<equiv>
     OnConflictUpdateBuilder ((OnConflictUpdateBuilder_props u)\<lparr>onConflictNode :=
       (update_descriptor u)\<lparr>updateWhere := Some t\<rparr>\<rparr>)"

definition keeps_target_and_index ::
  "('f, 'x, 'u) OnConflictNode \<Rightarrow> ('f, 'x, 'u) OnConflictNode \<Rightarrow> bool" where
  "keeps_target_and_index d d' \<longleftrightarrow>
     columns d' = columns d \<and> constraint d' = constraint d
     \<and> indexExpression d' = indexExpression d \<and> indexWhere d' = indexWhere d"

text \<open>
  A result is undecided for the parse context \<open>ctx\<close> when, if it is a target builder,
  its descriptor has no action yet (no \<open>updates\<close>, no \<open>updateWhere\<close>, no \<open>doNothing\<close>)
  and it holds \<open>ctx\<close>.
\<close>

fun undecided :: "'c \<Rightarrow> ('f, 'x, 'u, 'c) result \<Rightarrow> bool" where
  "undecided ctx (Builder (IsOnConflictBuilder b)) =
     (updates (descriptor b) = None \<and> updateWhere (descriptor b) = None
      \<and> doNothing (descriptor b) = None \<and> parseContext (OnConflictBuilder_props b) = ctx)"
| "undecided ctx _ = True"

text \<open>A call is rejected when it ends with the error of calling a missing method.\<close>

fun rejected :: "error + 'r \<Rightarrow> bool" where
  "rejected (Inl (NotAFunction _)) = True"
| "rejected _ = False"

section \<open>Properties\<close>

lemmas node_defs = cloneWith_def no_props_def spread_def cloneWithIndexWhere_def
  cloneWithIndexOrWhere_def cloneWithUpdateWhere_def cloneWithUpdateOrWhere_def
  IdentifierNode_create_def ColumnNode_create_def and_join_def or_join_def

lemmas sample_defs = sample_parsers_def initial_def OnConflictNode_create_def

lemmas target_builder_defs =
  OnConflictBuilder_column_def OnConflictBuilder_columns_def OnConflictBuilder_constraint_def
  OnConflictBuilder_expression_def OnConflictBuilder_where_def OnConflictBuilder_orWhere_def
  OnConflictBuilder_whereRef_def OnConflictBuilder_orWhereRef_def
  OnConflictBuilder_whereExists_def OnConflictBuilder_whereNotExists_def
  OnConflictBuilder_orWhereExists_def OnConflictBuilder_orWhereNotExists_def

lemmas update_builder_defs =
  OnConflictUpdateBuilder_where_def OnConflictUpdateBuilder_orWhere_def
  OnConflictUpdateBuilder_whereRef_def OnConflictUpdateBuilder_orWhereRef_def
  OnConflictUpdateBuilder_whereExists_def OnConflictUpdateBuilder_whereNotExists_def
  OnConflictUpdateBuilder_orWhereExists_def OnConflictUpdateBuilder_orWhereNotExists_def

lemmas method_groups = target_methods_def predicate_methods_def terminal_methods_def

subsection \<open>The two worked examples\<close>

text \<open>
  \<^verbatim>\<open>column("email").where(..).doNothing()\<close> and
  \<^verbatim>\<open>constraint("people_pkey").doUpdateSet(..).whereRef(..)\<close> on the initial builder, with
  the descriptor each chain ends in.
\<close>

lemma example_column_where_doNothing:
  "chain sample_parsers
     (Builder (IsOnConflictBuilder (initial () :: (nat, string, nat list, unit) OnConflictBuilder)))
     [call_column ''email'', call_where [7], call_doNothing, call_toOperationNode] =
   Inr (Node (OnConflictNode_create
                \<lparr>columns := Some [ColumnNode ''email''], indexWhere := Some (Filter 7),
                 doNothing := Some True\<rparr>))"
  by code_simp

lemma example_constraint_doUpdateSet_whereRef:
  "chain sample_parsers
     (Builder (IsOnConflictBuilder (initial () :: (nat, string, nat list, unit) OnConflictBuilder)))
     [call_constraint ''people_pkey'', call_doUpdateSet 4, call_whereRef 1 2 3,
      call_toOperationNode] =
   Inr (Node (OnConflictNode_create
                \<lparr>constraint := Some (IdentifierNode ''people_pkey''), updates := Some [4],
                 updateWhere := Some (Filter 6)\<rparr>))"
  by code_simp

subsection \<open>Composition of the index predicate\<close>

lemma where_orWhere_where_eq:
  assumes "parseWhereFilter ps (parseContext (OnConflictBuilder_props b)) a1 = Inr p1"
    and "parseWhereFilter ps (parseContext (OnConflictBuilder_props b)) a2 = Inr p2"
    and "parseWhereFilter ps (parseContext (OnConflictBuilder_props b)) a3 = Inr p3"
  shows "where_orWhere_where ps b a1 a2 a3 =
           Inr (OnConflictBuilder ((OnConflictBuilder_props b)\<lparr>onConflictNode :=
                  (descriptor b)\<lparr>indexWhere :=
                     Some (AndNode (OrNode (and_join (indexWhere (descriptor b)) p1) p2) p3)\<rparr>\<rparr>))"
  using assms
  by (simp add: where_orWhere_where_def and_then_def OnConflictBuilder_where_def
      OnConflictBuilder_orWhere_def node_defs Let_def)

text \<open>
  Claim C1, as amended. On a builder whose descriptor has no index predicate yet,
  \<^verbatim>\<open>where(a1).orWhere(a2).where(a3)\<close> leaves the index predicate \<open>(p1 OR p2) AND p3\<close>,
  where \<open>p1\<close>, \<open>p2\<close>, \<open>p3\<close> are the fragments parsed from the three argument lists. On
  a builder that already holds an index predicate \<open>q\<close> the result is
  \<open>((q AND p1) OR p2) AND p3\<close>: the fragments are joined onto what is there, strictly
  left to right. In neither case is the result \<open>p1 OR (p2 AND p3)\<close>.
\<close>

theorem predicates_compose_left_to_right:
  assumes "parseWhereFilter ps (parseContext (OnConflictBuilder_props b)) a1 = Inr p1"
    and "parseWhereFilter ps (parseContext (OnConflictBuilder_props b)) a2 = Inr p2"
    and "parseWhereFilter ps (parseContext (OnConflictBuilder_props b)) a3 = Inr p3"
  shows "indexPredicate_after (where_orWhere_where ps b a1 a2 a3) =
           Inr (Some (AndNode (OrNode (and_join (indexWhere (descriptor b)) p1) p2) p3))
       \<and> (indexWhere (descriptor b) = None \<longrightarrow>
            indexPredicate_after (where_orWhere_where ps b a1 a2 a3) =
              Inr (Some (AndNode (OrNode p1 p2) p3)))
       \<and> indexPredicate_after (where_orWhere_where ps b a1 a2 a3) \<noteq>
           Inr (Some (OrNode p1 (AndNode p2 p3)))"
  by (simp add: where_orWhere_where_eq [OF assms] indexPredicate_after_def returning_def
      and_join_def)

theorem predicates_compose_left_to_right_witness:
  "parseWhereFilter sample_parsers () [1] = Inr (Filter 1)
   \<and> parseWhereFilter sample_parsers () [2] = Inr (Filter 2)
   \<and> parseWhereFilter sample_parsers () [3] = Inr (Filter 3)
   \<and> indexWhere (descriptor (initial () :: (nat, string, nat list, unit) OnConflictBuilder)) = None
   \<and> indexPredicate_after
        (where_orWhere_where sample_parsers
           (initial () :: (nat, string, nat list, unit) OnConflictBuilder) [1] [2] [3]) =
       Inr (Some (AndNode (OrNode (Filter 1) (Filter 2)) (Filter 3)))"
  using predicates_compose_left_to_right
          [of sample_parsers "initial () :: (nat, string, nat list, unit) OnConflictBuilder"
              "[1]" "Filter 1" "[2]" "Filter 2" "[3]" "Filter 3"]
  by (simp add: sample_defs and_join_def)

text \<open>
  The claim as first stated, for every builder, fails on a builder that already holds a
  predicate: after \<^verbatim>\<open>where([9])\<close> on the initial builder, the same chain gives
  \<open>((9 AND 1) OR 2) AND 3\<close>, not \<open>(1 OR 2) AND 3\<close>.
\<close>

theorem chain_on_existing_predicate_counterexample:
  "OnConflictBuilder_where sample_parsers
     (initial () :: (nat, string, nat list, unit) OnConflictBuilder) [9] =
     Inr (OnConflictBuilder
            \<lparr>onConflictNode = OnConflictNode_create\<lparr>indexWhere := Some (Filter 9)\<rparr>,
             parseContext = ()\<rparr>)
   \<and> parseWhereFilter sample_parsers () [1] = Inr (Filter 1)
   \<and> parseWhereFilter sample_parsers () [2] = Inr (Filter 2)
   \<and> parseWhereFilter sample_parsers () [3] = Inr (Filter 3)
   \<and> indexPredicate_after
        (where_orWhere_where sample_parsers
           (OnConflictBuilder
              \<lparr>onConflictNode =
                 (OnConflictNode_create :: (nat, string, nat list) OnConflictNode)
                   \<lparr>indexWhere := Some (Filter 9)\<rparr>,
               parseContext = ()\<rparr>) [1] [2] [3]) =
       Inr (Some (AndNode (OrNode (AndNode (Filter 9) (Filter 1)) (Filter 2)) (Filter 3)))
   \<and> indexPredicate_after
        (where_orWhere_where sample_parsers
           (OnConflictBuilder
              \<lparr>onConflictNode =
                 (OnConflictNode_create :: (nat, string, nat list) OnConflictNode)
                   \<lparr>indexWhere := Some (Filter 9)\<rparr>,
               parseContext = ()\<rparr>) [1] [2] [3]) \<noteq>
       Inr (Some (AndNode (OrNode (Filter 1) (Filter 2)) (Filter 3)))"
  by (simp add: sample_defs where_orWhere_where_def and_then_def OnConflictBuilder_where_def
      OnConflictBuilder_orWhere_def node_defs indexPredicate_after_def returning_def Let_def)

text \<open>
  Claim C2. On a builder whose descriptor has no index predicate yet, one call of
  \<open>where\<close> (or of \<open>orWhere\<close>) whose arguments parse to the fragment \<open>p\<close> returns a
  builder whose index predicate is \<open>p\<close> itself, with no conjunction or disjunction
  around it; nothing else of the builder changes.
\<close>

theorem first_predicate_is_unwrapped:
  assumes "indexWhere (descriptor b) = None"
    and "parseWhereFilter ps (parseContext (OnConflictBuilder_props b)) args = Inr p"
  shows "OnConflictBuilder_where ps b args =
           Inr (OnConflictBuilder ((OnConflictBuilder_props b)\<lparr>onConflictNode :=
                  (descriptor b)\<lparr>indexWhere := Some p\<rparr>\<rparr>))
       \<and> OnConflictBuilder_orWhere ps b args =
           Inr (OnConflictBuilder ((OnConflictBuilder_props b)\<lparr>onConflictNode :=
                  (descriptor b)\<lparr>indexWhere := Some p\<rparr>\<rparr>))"
  using assms
  by (simp add: OnConflictBuilder_where_def OnConflictBuilder_orWhere_def node_defs Let_def)

theorem first_predicate_is_unwrapped_witness:
  "indexWhere (descriptor (initial () :: (nat, string, nat list, unit) OnConflictBuilder)) = None
   \<and> parseWhereFilter sample_parsers
        (parseContext (OnConflictBuilder_props
           (initial () :: (nat, string, nat list, unit) OnConflictBuilder))) [7] = Inr (Filter 7)
   \<and> OnConflictBuilder_where sample_parsers
        (initial () :: (nat, string, nat list, unit) OnConflictBuilder) [7] =
       Inr (OnConflictBuilder
              \<lparr>onConflictNode = OnConflictNode_create\<lparr>indexWhere := Some (Filter 7)\<rparr>,
               parseContext = ()\<rparr>)
   \<and> OnConflictBuilder_orWhere sample_parsers
        (initial () :: (nat, string, nat list, unit) OnConflictBuilder) [7] =
       Inr (OnConflictBuilder
              \<lparr>onConflictNode = OnConflictNode_create\<lparr>indexWhere := Some (Filter 7)\<rparr>,
               parseContext = ()\<rparr>)"
  using first_predicate_is_unwrapped
          [of "initial () :: (nat, string, nat list, unit) OnConflictBuilder"
              sample_parsers "[7]" "Filter 7"]
  by (simp add: sample_defs)

subsection \<open>Target columns\<close>

lemma columns_after_call:
  "columns (descriptor (apply_column_call b c)) =
     Some (present (columns (descriptor b)) @ map ColumnNode_create (supplied c))"
  by (cases c)
     (simp_all add: OnConflictBuilder_column_def OnConflictBuilder_columns_def cloneWith_def
        no_props_def spread_def present_def Let_def split: option.split)

lemma columns_after_calls:
  "columns (descriptor (foldl apply_column_call b (c # cs))) =
     Some (present (columns (descriptor b)) @
           map ColumnNode_create (concat (map supplied (c # cs))))"
proof (induction cs arbitrary: b c)
  case Nil
  show ?case by (simp add: columns_after_call)
next
  case (Cons d cs)
  have "columns (descriptor (foldl apply_column_call b (c # d # cs))) =
        columns (descriptor (foldl apply_column_call (apply_column_call b c) (d # cs)))"
    by simp
  also have "\<dots> = Some (present (columns (descriptor (apply_column_call b c))) @
                        map ColumnNode_create (concat (map supplied (d # cs))))"
    by (rule Cons.IH)
  also have "\<dots> = Some (present (columns (descriptor b)) @
                        map ColumnNode_create (concat (map supplied (c # d # cs))))"
    by (simp add: columns_after_call present_def)
  finally show ?case .
qed

text \<open>
  Claim C4. After any sequence of \<open>column\<close> and \<open>columns\<close> calls the column list of the
  descriptor is the list the builder started with (none counts as empty) followed by
  the column nodes of all supplied names, in call order, duplicates kept; an empty
  sequence leaves the column list as it was, absent when it was absent. Started from
  the initial builder, a non-empty sequence gives exactly the concatenation of the
  supplied names.
\<close>

theorem columns_accumulate_in_call_order:
  "columns (descriptor (apply_column_calls (b :: ('f, 'x, 'u, 'c) OnConflictBuilder) calls)) =
     (if calls = [] then columns (descriptor b)
      else Some (present (columns (descriptor b)) @
                 map ColumnNode_create (concat (map supplied calls))))
   \<and> (calls \<noteq> [] \<longrightarrow>
        columns (descriptor (apply_column_calls
                               (initial ctx :: ('f, 'x, 'u, 'c) OnConflictBuilder) calls)) =
          Some (map ColumnNode_create (concat (map supplied calls))))"
proof (cases calls)
  case Nil
  then show ?thesis by (simp add: apply_column_calls_def)
next
  case (Cons c cs)
  then show ?thesis
    by (simp only: apply_column_calls_def columns_after_calls)
       (simp add: present_def initial_def OnConflictNode_create_def)
qed

theorem columns_accumulate_in_call_order_witness:
  "[Columns [''a'', ''b''], Column ''a'', Columns [], Column ''c''] \<noteq> []
   \<and> columns (descriptor (apply_column_calls
        (initial () :: (nat, string, nat list, unit) OnConflictBuilder)
        [Columns [''a'', ''b''], Column ''a'', Columns [], Column ''c''])) =
       Some [ColumnNode ''a'', ColumnNode ''b'', ColumnNode ''a'', ColumnNode ''c'']"
  using columns_accumulate_in_call_order
          [of "initial () :: (nat, string, nat list, unit) OnConflictBuilder"
              "[Columns [''a'', ''b''], Column ''a'', Columns [], Column ''c'']" "()"]
  by (simp add: ColumnNode_create_def present_def initial_def OnConflictNode_create_def)

text \<open>
  Claim C10. \<open>column(c)\<close> returns the same builder as \<open>columns([c])\<close>, and
  \<open>columns([])\<close> returns a builder whose descriptor differs from the receiver's at most
  in that an absent column list has become a present, empty one.
\<close>

theorem column_is_singleton_columns:
  "OnConflictBuilder_column b c = OnConflictBuilder_columns b [c]
   \<and> OnConflictBuilder_props (OnConflictBuilder_columns b []) =
       (OnConflictBuilder_props b)\<lparr>onConflictNode :=
          (descriptor b)\<lparr>columns :=
             Some (case columns (descriptor b) of None \<Rightarrow> [] | Some cs \<Rightarrow> cs)\<rparr>\<rparr>"
  by (simp add: OnConflictBuilder_column_def OnConflictBuilder_columns_def cloneWith_def
      no_props_def spread_def Let_def split: option.split)

subsection \<open>Constraint and expression targets\<close>

text \<open>
  Claim C6. \<open>constraint(n)\<close> returns a builder whose descriptor is the receiver's with
  the constraint set to the identifier \<open>n\<close>, whatever constraint was there before (of
  two calls the second wins), and whose column list is the receiver's;
  \<open>expression(e)\<close> does the same for the index expression.
\<close>

theorem constraint_and_expression_replace:
  "OnConflictBuilder_props (OnConflictBuilder_constraint b n) =
     (OnConflictBuilder_props b)\<lparr>onConflictNode :=
        (descriptor b)\<lparr>constraint := Some (IdentifierNode n)\<rparr>\<rparr>
   \<and> OnConflictBuilder_constraint (OnConflictBuilder_constraint b n1) n2 =
       OnConflictBuilder_constraint b n2
   \<and> columns (descriptor (OnConflictBuilder_constraint b n)) = columns (descriptor b)
   \<and> OnConflictBuilder_props (OnConflictBuilder_expression b e) =
       (OnConflictBuilder_props b)\<lparr>onConflictNode :=
          (descriptor b)\<lparr>indexExpression := Some (RawBuilder_toOperationNode e)\<rparr>\<rparr>
   \<and> OnConflictBuilder_expression (OnConflictBuilder_expression b e1) e2 =
       OnConflictBuilder_expression b e2
   \<and> columns (descriptor (OnConflictBuilder_expression b e)) = columns (descriptor b)"
  by (simp add: OnConflictBuilder_constraint_def OnConflictBuilder_expression_def cloneWith_def
      no_props_def spread_def IdentifierNode_create_def Let_def)

subsection \<open>Terminal calls\<close>

text \<open>
  Claim C8. \<open>doNothing()\<close> returns a do-nothing builder; the descriptor extracted from
  it by \<open>toOperationNode\<close> is the receiver's descriptor with \<open>doNothing\<close> set to true and
  every other field as it was, and \<open>toOperationNode\<close> returns exactly the descriptor the
  terminal builder stores.
\<close>

theorem doNothing_yields_ignore:
  "OnConflictDoNothingBuilder_toOperationNode (OnConflictBuilder_doNothing b) =
     (descriptor b)\<lparr>doNothing := Some True\<rparr>
   \<and> parseContext (OnConflictDoNothingBuilder_props (OnConflictBuilder_doNothing b)) =
       parseContext (OnConflictBuilder_props b)
   \<and> OnConflictDoNothingBuilder_toOperationNode (OnConflictDoNothingBuilder p) = onConflictNode p"
  by (simp add: OnConflictBuilder_doNothing_def OnConflictDoNothingBuilder_toOperationNode_def
      cloneWith_def no_props_def spread_def Let_def)


lemma invoke_target_undecided:
  assumes "undecided ctx (Builder (IsOnConflictBuilder b))"
    and "OnConflictBuilder_invoke ps b c = Inr r"
  shows "undecided ctx r"
  using assms
  by (cases c)
     (auto simp: OnConflictBuilder_invoke_def returning_def target_builder_defs node_defs Let_def
        not_a_function_def split: sum.splits)

lemma invoke_undecided:
  assumes "undecided ctx (Builder b)" and "invoke ps b c = Inr r"
  shows "undecided ctx r"
proof (cases b)
  case (IsOnConflictBuilder t)
  with assms show ?thesis by (simp add: invoke_target_undecided)
next
  case (IsOnConflictDoNothingBuilder d)
  with assms show ?thesis
    by (cases c) (auto simp: OnConflictDoNothingBuilder_invoke_def not_a_function_def)
next
  case (IsOnConflictUpdateBuilder u)
  with assms show ?thesis
    by (cases c)
       (auto simp: OnConflictUpdateBuilder_invoke_def not_a_function_def returning_def
          split: sum.splits)
qed

lemma chain_undecided:
  assumes "undecided ctx r" and "chain ps r cs = Inr r'"
  shows "undecided ctx r'"
  using assms
proof (induction ps r cs rule: chain.induct)
  case (1 ps r)
  then show ?case by simp
next
  case (2 ps b c cs)
  from "2.prems"(2) obtain r1 where r1: "invoke ps b c = Inr r1" and rest: "chain ps r1 cs = Inr r'"
    by (auto split: sum.splits)
  from "2.prems"(1) r1 have "undecided ctx r1" by (rule invoke_undecided)
  with "2.IH" r1 rest show ?case by simp
next
  case (3 ps n c cs)
  then show ?case by (simp add: not_a_function_def)
qed

text \<open>
  Claim C7. When the update object parses, \<open>doUpdateSet\<close> returns an update builder
  whose descriptor is the receiver's with \<open>updates\<close> set to the parsed mapping: columns,
  constraint, index expression and index predicate are carried over. For every target
  builder that a chain of calls reaches from the initial builder, the update predicate of
  the returned descriptor is absent.
\<close>

theorem doUpdateSet_sets_update_action:
  fixes b :: "('f, 'x, 'u, 'c) OnConflictBuilder" and ps :: "('c, 'a, 'f, 'u) parsers"
  assumes "parseUpdateObject ps (parseContext (OnConflictBuilder_props b)) m = Inr parsed"
  shows "OnConflictBuilder_doUpdateSet ps b m =
           Inr (OnConflictUpdateBuilder ((OnConflictBuilder_props b)\<lparr>onConflictNode :=
                  (descriptor b)\<lparr>updates := Some parsed\<rparr>\<rparr>))
       \<and> (chain ps (Builder (IsOnConflictBuilder (initial ctx))) calls =
             Inr (Builder (IsOnConflictBuilder b)) \<longrightarrow>
           OnConflictBuilder_doUpdateSet ps b m =
             Inr (OnConflictUpdateBuilder ((OnConflictBuilder_props b)\<lparr>onConflictNode :=
                    (descriptor b)\<lparr>updates := Some parsed, updateWhere := None\<rparr>\<rparr>)))"
proof -
  have eq: "OnConflictBuilder_doUpdateSet ps b m =
           Inr (OnConflictUpdateBuilder ((OnConflictBuilder_props b)\<lparr>onConflictNode :=
                  (descriptor b)\<lparr>updates := Some parsed\<rparr>\<rparr>))"
    using assms by (simp add: OnConflictBuilder_doUpdateSet_def node_defs Let_def)
  have "updateWhere (descriptor b) = None"
    if "chain ps (Builder (IsOnConflictBuilder (initial ctx))) calls =
          Inr (Builder (IsOnConflictBuilder b))"
  proof -
    have "undecided ctx (Builder (IsOnConflictBuilder (initial ctx)) :: ('f, 'x, 'u, 'c) result)"
      by (simp add: initial_def OnConflictNode_create_def)
    then have "undecided ctx (Builder (IsOnConflictBuilder b))"
      using that by (rule chain_undecided)
    then show ?thesis by simp
  qed
  then have "chain ps (Builder (IsOnConflictBuilder (initial ctx))) calls =
               Inr (Builder (IsOnConflictBuilder b)) \<longrightarrow>
             (descriptor b)\<lparr>updates := Some parsed, updateWhere := None\<rparr> =
             (descriptor b)\<lparr>updates := Some parsed\<rparr>"
    by simp
  with eq show ?thesis by simp
qed

theorem doUpdateSet_sets_update_action_witness:
  "parseUpdateObject sample_parsers () 4 = Inr [4]
   \<and> chain sample_parsers
        (Builder (IsOnConflictBuilder (initial () :: (nat, string, nat list, unit) OnConflictBuilder)))
        [call_constraint ''people_pkey'', call_where [5]] =
       Inr (Builder (IsOnConflictBuilder (OnConflictBuilder
              \<lparr>onConflictNode = OnConflictNode_create
                 \<lparr>constraint := Some (IdentifierNode ''people_pkey''),
                  indexWhere := Some (Filter 5)\<rparr>,
               parseContext = ()\<rparr>)))
   \<and> OnConflictBuilder_doUpdateSet sample_parsers
        (OnConflictBuilder
              \<lparr>onConflictNode = (OnConflictNode_create :: (nat, string, nat list) OnConflictNode)
                 \<lparr>constraint := Some (IdentifierNode ''people_pkey''),
                  indexWhere := Some (Filter 5)\<rparr>,
               parseContext = ()\<rparr>) 4 =
       Inr (OnConflictUpdateBuilder
              \<lparr>onConflictNode = OnConflictNode_create
                 \<lparr>constraint := Some (IdentifierNode ''people_pkey''),
                  indexWhere := Some (Filter 5), updates := Some [4], updateWhere := None\<rparr>,
               parseContext = ()\<rparr>)"
proof -
  have p: "parseUpdateObject sample_parsers () 4 = Inr [4]"
    by (simp add: sample_parsers_def)
  have c: "chain sample_parsers
        (Builder (IsOnConflictBuilder (initial () :: (nat, string, nat list, unit) OnConflictBuilder)))
        [call_constraint ''people_pkey'', call_where [5]] =
       Inr (Builder (IsOnConflictBuilder (OnConflictBuilder
              \<lparr>onConflictNode = OnConflictNode_create
                 \<lparr>constraint := Some (IdentifierNode ''people_pkey''),
                  indexWhere := Some (Filter 5)\<rparr>,
               parseContext = ()\<rparr>)))"
    by (simp add: sample_defs OnConflictBuilder_invoke_def OnConflictBuilder_constraint_def
        OnConflictBuilder_where_def returning_def node_defs Let_def)
  have d: "OnConflictBuilder_doUpdateSet sample_parsers
        (OnConflictBuilder
              \<lparr>onConflictNode = (OnConflictNode_create :: (nat, string, nat list) OnConflictNode)
                 \<lparr>constraint := Some (IdentifierNode ''people_pkey''),
                  indexWhere := Some (Filter 5)\<rparr>,
               parseContext = ()\<rparr>) 4 =
       Inr (OnConflictUpdateBuilder
              \<lparr>onConflictNode = OnConflictNode_create
                 \<lparr>constraint := Some (IdentifierNode ''people_pkey''),
                  indexWhere := Some (Filter 5), updates := Some [4], updateWhere := None\<rparr>,
               parseContext = ()\<rparr>)"
    using doUpdateSet_sets_update_action
         [of sample_parsers "OnConflictBuilder
              \<lparr>onConflictNode = (OnConflictNode_create :: (nat, string, nat list) OnConflictNode)
                 \<lparr>constraint := Some (IdentifierNode ''people_pkey''),
                  indexWhere := Some (Filter 5)\<rparr>,
               parseContext = ()\<rparr>" 4 "[4]" "()"
             "[call_constraint ''people_pkey'', call_where [5]]", THEN conjunct2, THEN mp, OF _ c]
      p
    by simp
  from p c d show ?thesis by blast
qed

subsection \<open>Update predicate\<close>

text \<open>
  Claim C5. Each of the eight predicate methods of the update builder, when its
  arguments parse to a fragment, returns the receiver with the fragment joined onto the
  update predicate (by conjunction for the \<open>where\<close> forms, by disjunction for the
  \<open>orWhere\<close> forms) and nothing else changed: columns, constraint, index expression and
  index predicate of the descriptor are the receiver's.
\<close>

theorem update_predicates_write_updateWhere_only:
  fixes u :: "('f, 'x, 'u, 'c) OnConflictUpdateBuilder" and ps :: "('c, 'a, 'f, 'u) parsers"
  shows
   "(parseWhereFilter ps (parseContext (OnConflictUpdateBuilder_props u)) a1 = Inr p1 \<longrightarrow>
       OnConflictUpdateBuilder_where ps u a1 =
         Inr (with_updateWhere u (and_join (updateWhere (update_descriptor u)) p1)))
    \<and> (parseWhereFilter ps (parseContext (OnConflictUpdateBuilder_props u)) a2 = Inr p2 \<longrightarrow>
       OnConflictUpdateBuilder_orWhere ps u a2 =
         Inr (with_updateWhere u (or_join (updateWhere (update_descriptor u)) p2)))
    \<and> (parseReferenceFilter ps (parseContext (OnConflictUpdateBuilder_props u)) l3 o3 r3 = Inr p3 \<longrightarrow>
       OnConflictUpdateBuilder_whereRef ps u l3 o3 r3 =
         Inr (with_updateWhere u (and_join (updateWhere (update_descriptor u)) p3)))
    \<and> (parseReferenceFilter ps (parseContext (OnConflictUpdateBuilder_props u)) l4 o4 r4 = Inr p4 \<longrightarrow>
       OnConflictUpdateBuilder_orWhereRef ps u l4 o4 r4 =
         Inr (with_updateWhere u (or_join (updateWhere (update_descriptor u)) p4)))
    \<and> (parseExistFilter ps (parseContext (OnConflictUpdateBuilder_props u)) a5 = Inr p5 \<longrightarrow>
       OnConflictUpdateBuilder_whereExists ps u a5 =
         Inr (with_updateWhere u (and_join (updateWhere (update_descriptor u)) p5)))
    \<and> (parseNotExistFilter ps (parseContext (OnConflictUpdateBuilder_props u)) a6 = Inr p6 \<longrightarrow>
       OnConflictUpdateBuilder_whereNotExists ps u a6 =
         Inr (with_updateWhere u (and_join (updateWhere (update_descriptor u)) p6)))
    \<and> (parseExistFilter ps (parseContext (OnConflictUpdateBuilder_props u)) a7 = Inr p7 \<longrightarrow>
       OnConflictUpdateBuilder_orWhereExists ps u a7 =
         Inr (with_updateWhere u (or_join (updateWhere (update_descriptor u)) p7)))
    \<and> (parseNotExistFilter ps (parseContext (OnConflictUpdateBuilder_props u)) a8 = Inr p8 \<longrightarrow>
       OnConflictUpdateBuilder_orWhereNotExists ps u a8 =
         Inr (with_updateWhere u (or_join (updateWhere (update_descriptor u)) p8)))
    \<and> keeps_target_and_index (update_descriptor u) (update_descriptor (with_updateWhere u t))"
  by (simp add: update_builder_defs cloneWithUpdateWhere_def cloneWithUpdateOrWhere_def Let_def
      keeps_target_and_index_def)

theorem update_predicates_write_updateWhere_only_witness:
  "OnConflictUpdateBuilder_where sample_parsers
      (OnConflictUpdateBuilder
         \<lparr>onConflictNode = (OnConflictNode_create :: (nat, string, nat list) OnConflictNode)
            \<lparr>columns := Some [ColumnNode ''id''], indexWhere := Some (Filter 1),
             updates := Some [4], updateWhere := Some (Filter 2)\<rparr>,
          parseContext = ()\<rparr>) [7] =
     Inr (OnConflictUpdateBuilder
         \<lparr>onConflictNode = OnConflictNode_create
            \<lparr>columns := Some [ColumnNode ''id''], indexWhere := Some (Filter 1),
             updates := Some [4], updateWhere := Some (AndNode (Filter 2) (Filter 7))\<rparr>,
          parseContext = ()\<rparr>)
   \<and> OnConflictUpdateBuilder_orWhere sample_parsers
      (OnConflictUpdateBuilder
         \<lparr>onConflictNode = (OnConflictNode_create :: (nat, string, nat list) OnConflictNode)
            \<lparr>columns := Some [ColumnNode ''id''], indexWhere := Some (Filter 1),
             updates := Some [4], updateWhere := Some (Filter 2)\<rparr>,
          parseContext = ()\<rparr>) [8] =
     Inr (OnConflictUpdateBuilder
         \<lparr>onConflictNode = OnConflictNode_create
            \<lparr>columns := Some [ColumnNode ''id''], indexWhere := Some (Filter 1),
             updates := Some [4], updateWhere := Some (OrNode (Filter 2) (Filter 8))\<rparr>,
          parseContext = ()\<rparr>)
   \<and> OnConflictUpdateBuilder_whereRef sample_parsers
      (OnConflictUpdateBuilder
         \<lparr>onConflictNode = (OnConflictNode_create :: (nat, string, nat list) OnConflictNode)
            \<lparr>columns := Some [ColumnNode ''id''], indexWhere := Some (Filter 1),
             updates := Some [4], updateWhere := Some (Filter 2)\<rparr>,
          parseContext = ()\<rparr>) 1 2 3 =
     Inr (OnConflictUpdateBuilder
         \<lparr>onConflictNode = OnConflictNode_create
            \<lparr>columns := Some [ColumnNode ''id''], indexWhere := Some (Filter 1),
             updates := Some [4], updateWhere := Some (AndNode (Filter 2) (Filter 6))\<rparr>,
          parseContext = ()\<rparr>)
   \<and> OnConflictUpdateBuilder_orWhereRef sample_parsers
      (OnConflictUpdateBuilder
         \<lparr>onConflictNode = (OnConflictNode_create :: (nat, string, nat list) OnConflictNode)
            \<lparr>columns := Some [ColumnNode ''id''], indexWhere := Some (Filter 1),
             updates := Some [4], updateWhere := Some (Filter 2)\<rparr>,
          parseContext = ()\<rparr>) 2 3 4 =
     Inr (OnConflictUpdateBuilder
         \<lparr>onConflictNode = OnConflictNode_create
            \<lparr>columns := Some [ColumnNode ''id''], indexWhere := Some (Filter 1),
             updates := Some [4], updateWhere := Some (OrNode (Filter 2) (Filter 9))\<rparr>,
          parseContext = ()\<rparr>)
   \<and> OnConflictUpdateBuilder_whereExists sample_parsers
      (OnConflictUpdateBuilder
         \<lparr>onConflictNode = (OnConflictNode_create :: (nat, string, nat list) OnConflictNode)
            \<lparr>columns := Some [ColumnNode ''id''], indexWhere := Some (Filter 1),
             updates := Some [4], updateWhere := Some (Filter 2)\<rparr>,
          parseContext = ()\<rparr>) 5 =
     Inr (OnConflictUpdateBuilder
         \<lparr>onConflictNode = OnConflictNode_create
            \<lparr>columns := Some [ColumnNode ''id''], indexWhere := Some (Filter 1),
             updates := Some [4], updateWhere := Some (AndNode (Filter 2) (Filter 5))\<rparr>,
          parseContext = ()\<rparr>)
   \<and> OnConflictUpdateBuilder_whereNotExists sample_parsers
      (OnConflictUpdateBuilder
         \<lparr>onConflictNode = (OnConflictNode_create :: (nat, string, nat list) OnConflictNode)
            \<lparr>columns := Some [ColumnNode ''id''], indexWhere := Some (Filter 1),
             updates := Some [4], updateWhere := Some (Filter 2)\<rparr>,
          parseContext = ()\<rparr>) 5 =
     Inr (OnConflictUpdateBuilder
         \<lparr>onConflictNode = OnConflictNode_create
            \<lparr>columns := Some [ColumnNode ''id''], indexWhere := Some (Filter 1),
             updates := Some [4], updateWhere := Some (AndNode (Filter 2) (Filter 105))\<rparr>,
          parseContext = ()\<rparr>)
   \<and> OnConflictUpdateBuilder_orWhereExists sample_parsers
      (OnConflictUpdateBuilder
         \<lparr>onConflictNode = (OnConflictNode_create :: (nat, string, nat list) OnConflictNode)
            \<lparr>columns := Some [ColumnNode ''id''], indexWhere := Some (Filter 1),
             updates := Some [4], updateWhere := Some (Filter 2)\<rparr>,
          parseContext = ()\<rparr>) 6 =
     Inr (OnConflictUpdateBuilder
         \<lparr>onConflictNode = OnConflictNode_create
            \<lparr>columns := Some [ColumnNode ''id''], indexWhere := Some (Filter 1),
             updates := Some [4], updateWhere := Some (OrNode (Filter 2) (Filter 6))\<rparr>,
          parseContext = ()\<rparr>)
   \<and> OnConflictUpdateBuilder_orWhereNotExists sample_parsers
      (OnConflictUpdateBuilder
         \<lparr>onConflictNode = (OnConflictNode_create :: (nat, string, nat list) OnConflictNode)
            \<lparr>columns := Some [ColumnNode ''id''], indexWhere := Some (Filter 1),
             updates := Some [4], updateWhere := Some (Filter 2)\<rparr>,
          parseContext = ()\<rparr>) 6 =
     Inr (OnConflictUpdateBuilder
         \<lparr>onConflictNode = OnConflictNode_create
            \<lparr>columns := Some [ColumnNode ''id''], indexWhere := Some (Filter 1),
             updates := Some [4], updateWhere := Some (OrNode (Filter 2) (Filter 106))\<rparr>,
          parseContext = ()\<rparr>)"
proof -
  let ?u = "OnConflictUpdateBuilder
         \<lparr>onConflictNode = (OnConflictNode_create :: (nat, string, nat list) OnConflictNode)
            \<lparr>columns := Some [ColumnNode ''id''], indexWhere := Some (Filter 1),
             updates := Some [4], updateWhere := Some (Filter 2)\<rparr>,
          parseContext = ()\<rparr>"
  show ?thesis
    using update_predicates_write_updateWhere_only
      [where ps = sample_parsers and u = ?u
         and ?a1.0 = "[7]" and ?p1.0 = "Filter 7" and ?a2.0 = "[8]" and ?p2.0 = "Filter 8"
         and ?l3.0 = 1 and ?o3.0 = 2 and ?r3.0 = 3 and ?p3.0 = "Filter 6"
         and ?l4.0 = 2 and ?o4.0 = 3 and ?r4.0 = 4 and ?p4.0 = "Filter 9"
         and ?a5.0 = 5 and ?p5.0 = "Filter 5" and ?a6.0 = 5 and ?p6.0 = "Filter 105"
         and ?a7.0 = 6 and ?p7.0 = "Filter 6" and ?a8.0 = 6 and ?p8.0 = "Filter 106"]
    by (simp add: sample_parsers_def and_join_def or_join_def)
qed

subsection \<open>Terminal separation\<close>

lemma doNothing_builder_rejects:
  "rejected (OnConflictDoNothingBuilder_invoke d c) \<longleftrightarrow> c \<noteq> call_toOperationNode"
  by (cases c) (simp_all add: OnConflictDoNothingBuilder_invoke_def not_a_function_def)

lemma update_builder_rejects:
  "rejected (OnConflictUpdateBuilder_invoke ps u c) \<longleftrightarrow>
     method_name c \<in> set (target_methods @ terminal_methods)"
  by (cases c)
     (simp_all add: OnConflictUpdateBuilder_invoke_def not_a_function_def method_groups
        returning_def update_builder_defs Let_def split: sum.split)

text \<open>
  Claim C9. On the builder that \<open>doNothing()\<close> returned, a call is rejected exactly when
  it is a target call, a predicate call or a terminal call (only \<open>toOperationNode\<close> is
  answered). On the builder that \<open>doUpdateSet(m)\<close> returned, a call is rejected exactly
  when it is \<open>column\<close>, \<open>columns\<close>, \<open>constraint\<close>, \<open>expression\<close>, \<open>doNothing\<close> or
  \<open>doUpdateSet\<close>: the eight predicate calls (and \<open>toOperationNode\<close>) are accepted.
\<close>

theorem terminal_separation:
  fixes b :: "('f, 'x, 'u, 'c) OnConflictBuilder" and ps :: "('c, 'a, 'f, 'u) parsers"
  shows "(rejected (chain ps (Builder (IsOnConflictBuilder b)) [call_doNothing, c]) \<longleftrightarrow>
            method_name c \<in> set (target_methods @ predicate_methods @ terminal_methods))
       \<and> (parseUpdateObject ps (parseContext (OnConflictBuilder_props b)) m = Inr parsed \<longrightarrow>
            (rejected (chain ps (Builder (IsOnConflictBuilder b)) [call_doUpdateSet m, c]) \<longleftrightarrow>
               method_name c \<in> set (target_methods @ terminal_methods)))"
proof (intro conjI impI)
  have "rejected (chain ps (Builder (IsOnConflictBuilder b)) [call_doNothing, c]) \<longleftrightarrow>
          rejected (OnConflictDoNothingBuilder_invoke (OnConflictBuilder_doNothing b) c :: error + ('f, 'x, 'u, 'c) result)"
    by (simp add: OnConflictBuilder_invoke_def split: sum.split)
  also have "\<dots> \<longleftrightarrow> c \<noteq> call_toOperationNode"
    by (rule doNothing_builder_rejects)
  also have "\<dots> \<longleftrightarrow> method_name c \<in> set (target_methods @ predicate_methods @ terminal_methods)"
    by (cases c) (simp_all add: method_groups)
  finally show "rejected (chain ps (Builder (IsOnConflictBuilder b)) [call_doNothing, c]) \<longleftrightarrow>
            method_name c \<in> set (target_methods @ predicate_methods @ terminal_methods)" .
next
  assume "parseUpdateObject ps (parseContext (OnConflictBuilder_props b)) m = Inr parsed"
  then obtain u where u: "OnConflictBuilder_doUpdateSet ps b m = Inr u"
    by (simp add: OnConflictBuilder_doUpdateSet_def Let_def)
  then have "rejected (chain ps (Builder (IsOnConflictBuilder b)) [call_doUpdateSet m, c]) \<longleftrightarrow>
          rejected (OnConflictUpdateBuilder_invoke ps u c)"
    by (simp add: OnConflictBuilder_invoke_def returning_def split: sum.split)
  then show "rejected (chain ps (Builder (IsOnConflictBuilder b)) [call_doUpdateSet m, c]) \<longleftrightarrow>
               method_name c \<in> set (target_methods @ terminal_methods)"
    by (simp only: update_builder_rejects)
qed

theorem terminal_separation_witness:
  "rejected (chain sample_parsers
      (Builder (IsOnConflictBuilder (initial () :: (nat, string, nat list, unit) OnConflictBuilder)))
      [call_doNothing, call_where [1]])
   \<and> parseUpdateObject sample_parsers () 4 = Inr [4]
   \<and> rejected (chain sample_parsers
      (Builder (IsOnConflictBuilder (initial () :: (nat, string, nat list, unit) OnConflictBuilder)))
      [call_doUpdateSet 4, call_column ''id''])
   \<and> \<not> rejected (chain sample_parsers
      (Builder (IsOnConflictBuilder (initial () :: (nat, string, nat list, unit) OnConflictBuilder)))
      [call_doUpdateSet 4, call_orWhere [1]])"
proof -
  have p: "parseUpdateObject sample_parsers
             (parseContext (OnConflictBuilder_props
                (initial () :: (nat, string, nat list, unit) OnConflictBuilder))) 4 = Inr [4]"
    by (simp add: sample_parsers_def)
  have "rejected (chain sample_parsers
      (Builder (IsOnConflictBuilder (initial () :: (nat, string, nat list, unit) OnConflictBuilder)))
      [call_doNothing, call_where [1]])"
    using terminal_separation
            [where ps = sample_parsers and b = "initial () :: (nat, string, nat list, unit) OnConflictBuilder"
               and c = "call_where [1]", THEN conjunct1] by (simp add: method_groups)
  moreover have "rejected (chain sample_parsers
      (Builder (IsOnConflictBuilder (initial () :: (nat, string, nat list, unit) OnConflictBuilder)))
      [call_doUpdateSet 4, call_column ''id''])"
    using terminal_separation
            [where ps = sample_parsers and b = "initial () :: (nat, string, nat list, unit) OnConflictBuilder"
               and m = 4 and parsed = "[4]" and c = "call_column ''id''",
             THEN conjunct2, THEN mp, OF p]
    by (simp add: method_groups)
  moreover have "\<not> rejected (chain sample_parsers
      (Builder (IsOnConflictBuilder (initial () :: (nat, string, nat list, unit) OnConflictBuilder)))
      [call_doUpdateSet 4, call_orWhere [1]])"
    using terminal_separation
            [where ps = sample_parsers and b = "initial () :: (nat, string, nat list, unit) OnConflictBuilder"
               and m = 4 and parsed = "[4]" and c = "call_orWhere [1]",
             THEN conjunct2, THEN mp, OF p]
    by (simp add: method_groups)
  ultimately show ?thesis using p by simp
qed


subsection \<open>Calls on the store\<close>

text \<open>Every call only adds objects to the store.\<close>

lemma allocate_frozen_eq:
  "allocate_frozen s ob = (length s, s @ [\<lparr>content = ob, frozen = True\<rparr>])"
  by (simp add: allocate_frozen_def allocate_def freeze_def)

lemma new_builder_eq:
  "new_builder cls s node ctx =
     (Suc (length s),
      s @ [\<lparr>content = PropsObject node ctx, frozen = True\<rparr>,
           \<lparr>content = InstanceObject cls (length s), frozen = False\<rparr>])"
  by (simp add: new_builder_def construct_def allocate_def freeze_def)

lemma lookup_append:
  "lookup (s @ t) r =
     (if r < length s then lookup s r
      else if r < length s + length t then Inr (content (t ! (r - length s)))
      else Inl (BadReference r))"
  by (simp add: lookup_def nth_append)

lemmas at_defs = array_at_def node_at_def props_at_def instance_at_def

lemmas st_node_defs = st_cloneWith_def st_cloneWithIndexWhere_def st_cloneWithIndexOrWhere_def
  st_cloneWithUpdateWhere_def st_cloneWithUpdateOrWhere_def

lemmas st_target_defs =
  st_OnConflictBuilder_column_def st_OnConflictBuilder_columns_def
  st_OnConflictBuilder_constraint_def st_OnConflictBuilder_expression_def
  st_OnConflictBuilder_where_def st_OnConflictBuilder_orWhere_def
  st_OnConflictBuilder_whereRef_def st_OnConflictBuilder_orWhereRef_def
  st_OnConflictBuilder_whereExists_def st_OnConflictBuilder_whereNotExists_def
  st_OnConflictBuilder_orWhereExists_def st_OnConflictBuilder_orWhereNotExists_def
  st_OnConflictBuilder_doNothing_def st_OnConflictBuilder_doUpdateSet_def

lemmas st_update_defs =
  st_OnConflictUpdateBuilder_where_def st_OnConflictUpdateBuilder_orWhere_def
  st_OnConflictUpdateBuilder_whereRef_def st_OnConflictUpdateBuilder_orWhereRef_def
  st_OnConflictUpdateBuilder_whereExists_def st_OnConflictUpdateBuilder_whereNotExists_def
  st_OnConflictUpdateBuilder_orWhereExists_def st_OnConflictUpdateBuilder_orWhereNotExists_def

lemma target_frame:
  "st_OnConflictBuilder_invoke ps s this c = Inr (r, s') \<Longrightarrow> prefix s s' \<and> returns_new s s' r"
  by (cases c)
     (auto simp: st_OnConflictBuilder_invoke_def st_target_defs st_node_defs and_then_def
        built_def thrown_def allocate_frozen_eq new_builder_eq lookup_append at_defs
        not_a_function_def Let_def
        split: sum.splits prod.splits option.splits)


lemma update_frame:
  "st_OnConflictUpdateBuilder_invoke ps s this c = Inr (r, s') \<Longrightarrow>
     prefix s s' \<and> returns_new s s' r"
  by (cases c)
     (auto simp: st_OnConflictUpdateBuilder_invoke_def st_update_defs st_node_defs and_then_def
        built_def thrown_def allocate_frozen_eq new_builder_eq lookup_append at_defs
        not_a_function_def st_toOperationNode_def
        split: sum.splits prod.splits)

lemma doNothing_frame:
  "st_OnConflictDoNothingBuilder_invoke s this c = Inr (r, s') \<Longrightarrow>
     prefix s s' \<and> returns_new s s' r"
  by (cases c)
     (auto simp: st_OnConflictDoNothingBuilder_invoke_def and_then_def not_a_function_def
        split: sum.splits)

lemma st_invoke_frame:
  assumes "st_invoke ps s this c = Inr (r, s')"
  shows "prefix s s' \<and> returns_new s s' r"
proof -
  from assms obtain cls p where "instance_at s this = Inr (cls, p)"
    by (auto simp: st_invoke_def and_then_def split: sum.splits)
  with assms show ?thesis
    by (cases cls) (simp_all add: st_invoke_def and_then_def target_frame update_frame
        doNothing_frame)
qed

lemma st_calls_prefix: "prefix s (st_calls ps s calls)"
proof (induction calls arbitrary: s)
  case Nil
  show ?case by simp
next
  case (Cons rc calls)
  obtain this c where rc: "rc = (this, c)" by (cases rc)
  show ?case
  proof (cases "st_invoke ps s this c")
    case (Inl e)
    with rc Cons.IH show ?thesis by simp
  next
    case (Inr x)
    obtain r s' where x: "x = (r, s')" by (cases x)
    from Inr x have "prefix s s'" by (simp add: st_invoke_frame)
    moreover have "prefix s' (st_calls ps s' calls)" by (rule Cons.IH)
    ultimately show ?thesis using rc Inr x by (auto intro: prefix_order.trans)
  qed
qed

lemma lookup_prefix:
  assumes "prefix s s'" and "lookup s r = Inr ob"
  shows "lookup s' r = Inr ob"
  using assms by (auto simp: prefix_def lookup_def nth_append split: if_splits)

lemma at_prefix:
  assumes "prefix s s'"
  shows "array_at s r = Inr xs \<Longrightarrow> array_at s' r = Inr xs"
    and "node_at s r = Inr n \<Longrightarrow> node_at s' r = Inr n"
    and "props_at s r = Inr p \<Longrightarrow> props_at s' r = Inr p"
    and "instance_at s r = Inr i \<Longrightarrow> instance_at s' r = Inr i"
  by (auto simp: at_defs lookup_prefix [OF assms] split: sum.splits object.splits)

lemma this_props_prefix:
  assumes "prefix s s'" and "this_props s b = Inr p"
  shows "this_props s' b = Inr p"
  using assms(2)
  by (auto simp: this_props_def and_then_def at_prefix [OF assms(1)] split: sum.splits)

lemma st_toOperationNode_prefix:
  assumes "prefix s s'" and "st_toOperationNode s t = Inr n"
  shows "st_toOperationNode s' t = Inr n"
  using assms(2)
  by (auto simp: st_toOperationNode_def and_then_def this_props_prefix [OF assms(1)]
      split: sum.splits)

lemma node_value_prefix:
  assumes "prefix s s'" and "node_value s n = Inr v"
  shows "node_value s' n = Inr v"
  using assms(2)
  by (auto simp: node_value_def and_then_def at_prefix [OF assms(1)]
      split: sum.splits option.splits)

lemma node_value_iff:
  "node_value s r = Inr d \<longleftrightarrow> (\<exists>n. node_at s r = Inr n \<and> node_rel s n d)"
  by (cases d)
     (auto simp: node_value_def node_rel_def and_then_def split: sum.splits option.splits)

lemma prefix_append_self: "prefix s (s @ t)"
  by simp

lemma node_value_append:
  "node_value s r = Inr d \<Longrightarrow> node_value (s @ t) r = Inr d"
  by (rule node_value_prefix [OF prefix_append_self])

lemma node_rel_append:
  "node_rel s n d \<Longrightarrow> node_rel (s @ t) n d"
  by (auto simp: node_rel_def at_prefix(1) [OF prefix_append_self]
      split: option.splits sum.splits)

lemma node_at_fresh:
  "node_at (s @ [\<lparr>content = NodeObject n, frozen = fz\<rparr>]) (length s) = Inr n"
  by (simp add: node_at_def lookup_def)

lemma array_at_fresh:
  "array_at (s @ [\<lparr>content = ArrayObject xs, frozen = fz\<rparr>]) (length s) = Inr xs"
  by (simp add: array_at_def lookup_def)

text \<open>The five functions of the node module on the store have one shape.\<close>

lemma st_clone_refines:
  assumes nv: "node_value s r = Inr d"
    and pres: "\<And>n. node_rel s n d \<Longrightarrow> node_rel s (f n) d'"
  shows "\<exists>s1. and_then (node_at s r) (\<lambda>n. Inr (allocate_frozen s (NodeObject (f n)))) =
               Inr (length s, s1)
             \<and> node_value s1 (length s) = Inr d'"
proof -
  from nv obtain n where n: "node_at s r = Inr n" and rel: "node_rel s n d"
    unfolding node_value_iff by blast
  let ?s1 = "s @ [\<lparr>content = NodeObject (f n), frozen = True\<rparr>]"
  have "and_then (node_at s r) (\<lambda>n. Inr (allocate_frozen s (NodeObject (f n)))) =
          Inr (length s, ?s1)"
    by (simp add: n and_then_def allocate_frozen_eq)
  moreover have "node_value ?s1 (length s) = Inr d'"
    unfolding node_value_iff
    using pres [OF rel] by (auto simp: node_at_fresh intro: node_rel_append)
  ultimately show ?thesis by blast
qed

lemma new_builder_value:
  assumes "node_value s1 r = Inr d"
  shows "(case new_builder cls s1 r ctx of (b, s2) \<Rightarrow> builder_value s2 b) =
           Inr (instance_value cls \<lparr>onConflictNode = d, parseContext = ctx\<rparr>)"
  by (simp add: new_builder_eq builder_value_def instance_at_def props_at_def lookup_def
      nth_append and_then_def node_value_append [OF assms])

lemma shape_parse_clone_new:
  assumes tp: "this_props s this = Inr (r, ctx)" and nv: "node_value s r = Inr d"
    and cl: "\<And>frag. \<exists>s1. st_clone s r frag = Inr (length s, s1)
                        \<and> node_value s1 (length s) = Inr (clone d frag)"
  shows "and_then
           (and_then (this_props s this) (\<lambda>(node, ctx).
            and_then (thrown (pr ctx)) (\<lambda>frag.
            and_then (st_clone s node frag) (\<lambda>(node', s1).
            Inr (new_builder cls s1 node' ctx)))))
           (\<lambda>(b, s'). builder_value s' b) =
         (case pr ctx of
            Inl e \<Rightarrow> Inl (Thrown e)
          | Inr frag \<Rightarrow>
              Inr (instance_value cls \<lparr>onConflictNode = clone d frag, parseContext = ctx\<rparr>))"
proof (cases "pr ctx")
  case (Inl e)
  then show ?thesis by (simp add: tp and_then_def thrown_def)
next
  case (Inr frag)
  from cl [of frag] obtain s1 where c: "st_clone s r frag = Inr (length s, s1)"
    and v: "node_value s1 (length s) = Inr (clone d frag)" by blast
  show ?thesis
    using new_builder_value [OF v, of cls ctx]
    by (simp add: tp Inr c and_then_def thrown_def split: prod.splits)
qed

lemma shape_clone_new:
  assumes tp: "this_props s this = Inr (r, ctx)"
    and cl: "\<exists>s1. st_clone s r = Inr (length s, s1) \<and> node_value s1 (length s) = Inr d'"
  shows "and_then
           (and_then (this_props s this) (\<lambda>(node, ctx).
            and_then (st_clone s node) (\<lambda>(node', s1).
            Inr (new_builder cls s1 node' ctx))))
           (\<lambda>(b, s'). builder_value s' b) =
         Inr (instance_value cls \<lparr>onConflictNode = d', parseContext = ctx\<rparr>)"
proof -
  from cl obtain s1 where c: "st_clone s r = Inr (length s, s1)"
    and v: "node_value s1 (length s) = Inr d'" by blast
  show ?thesis
    using new_builder_value [OF v, of cls ctx]
    by (simp add: tp c and_then_def split: prod.splits)
qed

lemma st_where_clones:
  assumes "node_value s r = Inr d"
  shows "\<exists>s1. st_cloneWithIndexWhere s r frag = Inr (length s, s1)
             \<and> node_value s1 (length s) = Inr (cloneWithIndexWhere d frag)"
    and "\<exists>s1. st_cloneWithIndexOrWhere s r frag = Inr (length s, s1)
             \<and> node_value s1 (length s) = Inr (cloneWithIndexOrWhere d frag)"
    and "\<exists>s1. st_cloneWithUpdateWhere s r frag = Inr (length s, s1)
             \<and> node_value s1 (length s) = Inr (cloneWithUpdateWhere d frag)"
    and "\<exists>s1. st_cloneWithUpdateOrWhere s r frag = Inr (length s, s1)
             \<and> node_value s1 (length s) = Inr (cloneWithUpdateOrWhere d frag)"
  unfolding st_node_defs
  by (rule st_clone_refines [OF assms],
      auto simp: node_rel_def cloneWithIndexWhere_def cloneWithIndexOrWhere_def
        cloneWithUpdateWhere_def cloneWithUpdateOrWhere_def
        split: option.splits sum.splits)+

lemma st_cloneWith_no_columns:
  assumes "node_value s r = Inr d"
    and "props = \<lparr>columns_prop = None, constraint_prop = c, indexExpression_prop = e,
                  updates_prop = u, doNothing_prop = dn\<rparr>"
    and "pv = \<lparr>columns_prop = None, constraint_prop = c, indexExpression_prop = e,
                  updates_prop = u, doNothing_prop = dn\<rparr>"
  shows "\<exists>s1. st_cloneWith s r props = Inr (length s, s1)
             \<and> node_value s1 (length s) = Inr (cloneWith d pv)"
  unfolding st_node_defs
  by (rule st_clone_refines [OF assms(1)])
     (auto simp: node_rel_def cloneWith_def spread_def assms(2,3)
        split: option.splits sum.splits)

lemma st_cloneWith_columns:
  assumes "node_value s r = Inr d" and "array_at s a = Inr xs"
  shows "\<exists>s1. st_cloneWith s r (no_props\<lparr>columns_prop := Some a\<rparr>) = Inr (length s, s1)
             \<and> node_value s1 (length s) =
                 Inr (cloneWith d (no_props\<lparr>columns_prop := Some xs\<rparr>))"
  unfolding st_node_defs
  by (rule st_clone_refines [OF assms(1)])
     (auto simp: node_rel_def cloneWith_def spread_def no_props_def assms(2)
        split: option.splits sum.splits)

lemma shape_columns:
  assumes tp: "this_props s this = Inr (r, ctx)" and nv: "node_value s r = Inr d"
  shows "and_then
           (and_then (this_props s this) (\<lambda>(node, ctx).
            and_then (node_at s node) (\<lambda>n.
            and_then (case columns n of
                        Some a \<Rightarrow>
                          and_then (array_at s a) (\<lambda>cs.
                          Inr (allocate_frozen s (ArrayObject (cs @ new))))
                      | None \<Rightarrow> Inr (allocate_frozen s (ArrayObject new))) (\<lambda>(arr, s1).
            and_then (st_cloneWith s1 node (no_props\<lparr>columns_prop := Some arr\<rparr>))
              (\<lambda>(node', s2).
            Inr (new_builder cls s2 node' ctx))))))
           (\<lambda>(b, s'). builder_value s' b) =
         Inr (instance_value cls
                \<lparr>onConflictNode =
                   cloneWith d
                     (no_props\<lparr>columns_prop :=
                        Some (case columns d of Some cs \<Rightarrow> cs @ new | None \<Rightarrow> new)\<rparr>),
                 parseContext = ctx\<rparr>)"
proof -
  let ?xs = "case columns d of Some cs \<Rightarrow> cs @ new | None \<Rightarrow> new"
  let ?s1 = "s @ [\<lparr>content = ArrayObject ?xs, frozen = True\<rparr>]"
  from nv obtain n where n: "node_at s r = Inr n" and rel: "node_rel s n d"
    unfolding node_value_iff by blast
  have arr: "(case columns n of
                Some a \<Rightarrow>
                  and_then (array_at s a) (\<lambda>cs.
                  Inr (allocate_frozen s (ArrayObject (cs @ new))))
              | None \<Rightarrow> Inr (allocate_frozen s (ArrayObject new))) = Inr (length s, ?s1)"
    using rel
    by (auto simp: node_rel_def and_then_def allocate_frozen_eq split: option.splits sum.splits)
  have "node_value ?s1 r = Inr d" using nv by (rule node_value_append)
  moreover have "array_at ?s1 (length s) = Inr ?xs" by (rule array_at_fresh)
  ultimately obtain s2 where
    c: "st_cloneWith ?s1 r (no_props\<lparr>columns_prop := Some (length s)\<rparr>) = Inr (length ?s1, s2)"
    and v: "node_value s2 (length ?s1) =
              Inr (cloneWith d (no_props\<lparr>columns_prop := Some ?xs\<rparr>))"
    using st_cloneWith_columns by blast
  show ?thesis
    using new_builder_value [OF v, of cls ctx]
    by (simp add: tp n arr c and_then_def split: prod.splits)
qed

lemma st_OnConflictBuilder_where_refines:
  assumes "this_props s this = Inr (r, ctx)" and "node_value s r = Inr d"
  shows "and_then (st_OnConflictBuilder_where ps s this args) (\<lambda>(b, s'). builder_value s' b) =
           returning IsOnConflictBuilder
             (OnConflictBuilder_where ps
                (OnConflictBuilder \<lparr>onConflictNode = d, parseContext = ctx\<rparr>) args)"
  unfolding st_OnConflictBuilder_where_def
  by (subst shape_parse_clone_new [OF assms, where clone = cloneWithIndexWhere])
     (simp_all add: st_where_clones [OF assms(2)] OnConflictBuilder_where_def returning_def
        instance_value_def split: sum.splits)

lemma st_OnConflictBuilder_whereRef_refines:
  assumes "this_props s this = Inr (r, ctx)" and "node_value s r = Inr d"
  shows "and_then (st_OnConflictBuilder_whereRef ps s this lhs op rhs) (\<lambda>(b, s'). builder_value s' b) =
           returning IsOnConflictBuilder
             (OnConflictBuilder_whereRef ps
                (OnConflictBuilder \<lparr>onConflictNode = d, parseContext = ctx\<rparr>) lhs op rhs)"
  unfolding st_OnConflictBuilder_whereRef_def
  by (subst shape_parse_clone_new [OF assms, where clone = cloneWithIndexWhere])
     (simp_all add: st_where_clones [OF assms(2)] OnConflictBuilder_whereRef_def returning_def
        instance_value_def split: sum.splits)

lemma st_OnConflictBuilder_orWhere_refines:
  assumes "this_props s this = Inr (r, ctx)" and "node_value s r = Inr d"
  shows "and_then (st_OnConflictBuilder_orWhere ps s this args) (\<lambda>(b, s'). builder_value s' b) =
           returning IsOnConflictBuilder
             (OnConflictBuilder_orWhere ps
                (OnConflictBuilder \<lparr>onConflictNode = d, parseContext = ctx\<rparr>) args)"
  unfolding st_OnConflictBuilder_orWhere_def
  by (subst shape_parse_clone_new [OF assms, where clone = cloneWithIndexOrWhere])
     (simp_all add: st_where_clones [OF assms(2)] OnConflictBuilder_orWhere_def returning_def
        instance_value_def split: sum.splits)

lemma st_OnConflictBuilder_orWhereRef_refines:
  assumes "this_props s this = Inr (r, ctx)" and "node_value s r = Inr d"
  shows "and_then (st_OnConflictBuilder_orWhereRef ps s this lhs op rhs) (\<lambda>(b, s'). builder_value s' b) =
           returning IsOnConflictBuilder
             (OnConflictBuilder_orWhereRef ps
                (OnConflictBuilder \<lparr>onConflictNode = d, parseContext = ctx\<rparr>) lhs op rhs)"
  unfolding st_OnConflictBuilder_orWhereRef_def
  by (subst shape_parse_clone_new [OF assms, where clone = cloneWithIndexOrWhere])
     (simp_all add: st_where_clones [OF assms(2)] OnConflictBuilder_orWhereRef_def returning_def
        instance_value_def split: sum.splits)

lemma st_OnConflictBuilder_whereExists_refines:
  assumes "this_props s this = Inr (r, ctx)" and "node_value s r = Inr d"
  shows "and_then (st_OnConflictBuilder_whereExists ps s this arg) (\<lambda>(b, s'). builder_value s' b) =
           returning IsOnConflictBuilder
             (OnConflictBuilder_whereExists ps
                (OnConflictBuilder \<lparr>onConflictNode = d, parseContext = ctx\<rparr>) arg)"
  unfolding st_OnConflictBuilder_whereExists_def
  by (subst shape_parse_clone_new [OF assms, where clone = cloneWithIndexWhere])
     (simp_all add: st_where_clones [OF assms(2)] OnConflictBuilder_whereExists_def returning_def
        instance_value_def split: sum.splits)

lemma st_OnConflictBuilder_whereNotExists_refines:
  assumes "this_props s this = Inr (r, ctx)" and "node_value s r = Inr d"
  shows "and_then (st_OnConflictBuilder_whereNotExists ps s this arg) (\<lambda>(b, s'). builder_value s' b) =
           returning IsOnConflictBuilder
             (OnConflictBuilder_whereNotExists ps
                (OnConflictBuilder \<lparr>onConflictNode = d, parseContext = ctx\<rparr>) arg)"
  unfolding st_OnConflictBuilder_whereNotExists_def
  by (subst shape_parse_clone_new [OF assms, where clone = cloneWithIndexWhere])
     (simp_all add: st_where_clones [OF assms(2)] OnConflictBuilder_whereNotExists_def returning_def
        instance_value_def split: sum.splits)

lemma st_OnConflictBuilder_orWhereExists_refines:
  assumes "this_props s this = Inr (r, ctx)" and "node_value s r = Inr d"
  shows "and_then (st_OnConflictBuilder_orWhereExists ps s this arg) (\<lambda>(b, s'). builder_value s' b) =
           returning IsOnConflictBuilder
             (OnConflictBuilder_orWhereExists ps
                (OnConflictBuilder \<lparr>onConflictNode = d, parseContext = ctx\<rparr>) arg)"
  unfolding st_OnConflictBuilder_orWhereExists_def
  by (subst shape_parse_clone_new [OF assms, where clone = cloneWithIndexOrWhere])
     (simp_all add: st_where_clones [OF assms(2)] OnConflictBuilder_orWhereExists_def returning_def
        instance_value_def split: sum.splits)

lemma st_OnConflictBuilder_orWhereNotExists_refines:
  assumes "this_props s this = Inr (r, ctx)" and "node_value s r = Inr d"
  shows "and_then (st_OnConflictBuilder_orWhereNotExists ps s this arg) (\<lambda>(b, s'). builder_value s' b) =
           returning IsOnConflictBuilder
             (OnConflictBuilder_orWhereNotExists ps
                (OnConflictBuilder \<lparr>onConflictNode = d, parseContext = ctx\<rparr>) arg)"
  unfolding st_OnConflictBuilder_orWhereNotExists_def
  by (subst shape_parse_clone_new [OF assms, where clone = cloneWithIndexOrWhere])
     (simp_all add: st_where_clones [OF assms(2)] OnConflictBuilder_orWhereNotExists_def returning_def
        instance_value_def split: sum.splits)

lemma st_OnConflictUpdateBuilder_where_refines:
  assumes "this_props s this = Inr (r, ctx)" and "node_value s r = Inr d"
  shows "and_then (st_OnConflictUpdateBuilder_where ps s this args) (\<lambda>(b, s'). builder_value s' b) =
           returning IsOnConflictUpdateBuilder
             (OnConflictUpdateBuilder_where ps
                (OnConflictUpdateBuilder \<lparr>onConflictNode = d, parseContext = ctx\<rparr>) args)"
  unfolding st_OnConflictUpdateBuilder_where_def
  by (subst shape_parse_clone_new [OF assms, where clone = cloneWithUpdateWhere])
     (simp_all add: st_where_clones [OF assms(2)] OnConflictUpdateBuilder_where_def returning_def
        instance_value_def split: sum.splits)

lemma st_OnConflictUpdateBuilder_whereRef_refines:
  assumes "this_props s this = Inr (r, ctx)" and "node_value s r = Inr d"
  shows "and_then (st_OnConflictUpdateBuilder_whereRef ps s this lhs op rhs) (\<lambda>(b, s'). builder_value s' b) =
           returning IsOnConflictUpdateBuilder
             (OnConflictUpdateBuilder_whereRef ps
                (OnConflictUpdateBuilder \<lparr>onConflictNode = d, parseContext = ctx\<rparr>) lhs op rhs)"
  unfolding st_OnConflictUpdateBuilder_whereRef_def
  by (subst shape_parse_clone_new [OF assms, where clone = cloneWithUpdateWhere])
     (simp_all add: st_where_clones [OF assms(2)] OnConflictUpdateBuilder_whereRef_def returning_def
        instance_value_def split: sum.splits)

lemma st_OnConflictUpdateBuilder_orWhere_refines:
  assumes "this_props s this = Inr (r, ctx)" and "node_value s r = Inr d"
  shows "and_then (st_OnConflictUpdateBuilder_orWhere ps s this args) (\<lambda>(b, s'). builder_value s' b) =
           returning IsOnConflictUpdateBuilder
             (OnConflictUpdateBuilder_orWhere ps
                (OnConflictUpdateBuilder \<lparr>onConflictNode = d, parseContext = ctx\<rparr>) args)"
  unfolding st_OnConflictUpdateBuilder_orWhere_def
  by (subst shape_parse_clone_new [OF assms, where clone = cloneWithUpdateOrWhere])
     (simp_all add: st_where_clones [OF assms(2)] OnConflictUpdateBuilder_orWhere_def returning_def
        instance_value_def split: sum.splits)

lemma st_OnConflictUpdateBuilder_orWhereRef_refines:
  assumes "this_props s this = Inr (r, ctx)" and "node_value s r = Inr d"
  shows "and_then (st_OnConflictUpdateBuilder_orWhereRef ps s this lhs op rhs) (\<lambda>(b, s'). builder_value s' b) =
           returning IsOnConflictUpdateBuilder
             (OnConflictUpdateBuilder_orWhereRef ps
                (OnConflictUpdateBuilder \<lparr>onConflictNode = d, parseContext = ctx\<rparr>) lhs op rhs)"
  unfolding st_OnConflictUpdateBuilder_orWhereRef_def
  by (subst shape_parse_clone_new [OF assms, where clone = cloneWithUpdateOrWhere])
     (simp_all add: st_where_clones [OF assms(2)] OnConflictUpdateBuilder_orWhereRef_def returning_def
        instance_value_def split: sum.splits)

lemma st_OnConflictUpdateBuilder_whereExists_refines:
  assumes "this_props s this = Inr (r, ctx)" and "node_value s r = Inr d"
  shows "and_then (st_OnConflictUpdateBuilder_whereExists ps s this arg) (\<lambda>(b, s'). builder_value s' b) =
           returning IsOnConflictUpdateBuilder
             (OnConflictUpdateBuilder_whereExists ps
                (OnConflictUpdateBuilder \<lparr>onConflictNode = d, parseContext = ctx\<rparr>) arg)"
  unfolding st_OnConflictUpdateBuilder_whereExists_def
  by (subst shape_parse_clone_new [OF assms, where clone = cloneWithUpdateWhere])
     (simp_all add: st_where_clones [OF assms(2)] OnConflictUpdateBuilder_whereExists_def returning_def
        instance_value_def split: sum.splits)

lemma st_OnConflictUpdateBuilder_whereNotExists_refines:
  assumes "this_props s this = Inr (r, ctx)" and "node_value s r = Inr d"
  shows "and_then (st_OnConflictUpdateBuilder_whereNotExists ps s this arg) (\<lambda>(b, s'). builder_value s' b) =
           returning IsOnConflictUpdateBuilder
             (OnConflictUpdateBuilder_whereNotExists ps
                (OnConflictUpdateBuilder \<lparr>onConflictNode = d, parseContext = ctx\<rparr>) arg)"
  unfolding st_OnConflictUpdateBuilder_whereNotExists_def
  by (subst shape_parse_clone_new [OF assms, where clone = cloneWithUpdateWhere])
     (simp_all add: st_where_clones [OF assms(2)] OnConflictUpdateBuilder_whereNotExists_def returning_def
        instance_value_def split: sum.splits)

lemma st_OnConflictUpdateBuilder_orWhereExists_refines:
  assumes "this_props s this = Inr (r, ctx)" and "node_value s r = Inr d"
  shows "and_then (st_OnConflictUpdateBuilder_orWhereExists ps s this arg) (\<lambda>(b, s'). builder_value s' b) =
           returning IsOnConflictUpdateBuilder
             (OnConflictUpdateBuilder_orWhereExists ps
                (OnConflictUpdateBuilder \<lparr>onConflictNode = d, parseContext = ctx\<rparr>) arg)"
  unfolding st_OnConflictUpdateBuilder_orWhereExists_def
  by (subst shape_parse_clone_new [OF assms, where clone = cloneWithUpdateOrWhere])
     (simp_all add: st_where_clones [OF assms(2)] OnConflictUpdateBuilder_orWhereExists_def returning_def
        instance_value_def split: sum.splits)

lemma st_OnConflictUpdateBuilder_orWhereNotExists_refines:
  assumes "this_props s this = Inr (r, ctx)" and "node_value s r = Inr d"
  shows "and_then (st_OnConflictUpdateBuilder_orWhereNotExists ps s this arg) (\<lambda>(b, s'). builder_value s' b) =
           returning IsOnConflictUpdateBuilder
             (OnConflictUpdateBuilder_orWhereNotExists ps
                (OnConflictUpdateBuilder \<lparr>onConflictNode = d, parseContext = ctx\<rparr>) arg)"
  unfolding st_OnConflictUpdateBuilder_orWhereNotExists_def
  by (subst shape_parse_clone_new [OF assms, where clone = cloneWithUpdateOrWhere])
     (simp_all add: st_where_clones [OF assms(2)] OnConflictUpdateBuilder_orWhereNotExists_def returning_def
        instance_value_def split: sum.splits)

lemma st_OnConflictBuilder_doUpdateSet_refines:
  assumes "this_props s this = Inr (r, ctx)" and "node_value s r = Inr d"
  shows "and_then (st_OnConflictBuilder_doUpdateSet ps s this m)
           (\<lambda>(b, s'). builder_value s' b) =
           returning IsOnConflictUpdateBuilder
             (OnConflictBuilder_doUpdateSet ps
                (OnConflictBuilder \<lparr>onConflictNode = d, parseContext = ctx\<rparr>) m)"
  unfolding st_OnConflictBuilder_doUpdateSet_def
  by (subst shape_parse_clone_new
        [OF assms, where clone = "\<lambda>d parsed. cloneWith d (no_props\<lparr>updates_prop := Some parsed\<rparr>)"])
     (simp_all add: st_cloneWith_no_columns [OF assms(2)] no_props_def
        OnConflictBuilder_doUpdateSet_def returning_def instance_value_def split: sum.splits)

lemma st_OnConflictBuilder_constraint_refines:
  assumes "this_props s this = Inr (r, ctx)" and "node_value s r = Inr d"
  shows "and_then (st_OnConflictBuilder_constraint s this n) (\<lambda>(b, s'). builder_value s' b) =
           Inr (IsOnConflictBuilder
                  (OnConflictBuilder_constraint
                     (OnConflictBuilder \<lparr>onConflictNode = d, parseContext = ctx\<rparr>) n))"
  unfolding st_OnConflictBuilder_constraint_def
  by (subst shape_clone_new
        [OF assms(1), where d' = "cloneWith d (no_props\<lparr>constraint_prop := Some (IdentifierNode_create n)\<rparr>)"])
     (simp_all add: st_cloneWith_no_columns [OF assms(2)] no_props_def
        OnConflictBuilder_constraint_def instance_value_def)

lemma st_OnConflictBuilder_expression_refines:
  assumes "this_props s this = Inr (r, ctx)" and "node_value s r = Inr d"
  shows "and_then (st_OnConflictBuilder_expression s this e) (\<lambda>(b, s'). builder_value s' b) =
           Inr (IsOnConflictBuilder
                  (OnConflictBuilder_expression
                     (OnConflictBuilder \<lparr>onConflictNode = d, parseContext = ctx\<rparr>) e))"
  unfolding st_OnConflictBuilder_expression_def
  by (subst shape_clone_new
        [OF assms(1), where d' = "cloneWith d (no_props\<lparr>indexExpression_prop := Some (RawBuilder_toOperationNode e)\<rparr>)"])
     (simp_all add: st_cloneWith_no_columns [OF assms(2)] no_props_def
        OnConflictBuilder_expression_def instance_value_def)

lemma st_OnConflictBuilder_doNothing_refines:
  assumes "this_props s this = Inr (r, ctx)" and "node_value s r = Inr d"
  shows "and_then (st_OnConflictBuilder_doNothing s this) (\<lambda>(b, s'). builder_value s' b) =
           Inr (IsOnConflictDoNothingBuilder
                  (OnConflictBuilder_doNothing
                     (OnConflictBuilder \<lparr>onConflictNode = d, parseContext = ctx\<rparr>)))"
  unfolding st_OnConflictBuilder_doNothing_def
  by (subst shape_clone_new
        [OF assms(1), where d' = "cloneWith d (no_props\<lparr>doNothing_prop := Some True\<rparr>)"])
     (simp_all add: st_cloneWith_no_columns [OF assms(2)] no_props_def
        OnConflictBuilder_doNothing_def instance_value_def)

lemma st_OnConflictBuilder_column_refines:
  assumes "this_props s this = Inr (r, ctx)" and "node_value s r = Inr d"
  shows "and_then (st_OnConflictBuilder_column s this c) (\<lambda>(b, s'). builder_value s' b) =
           Inr (IsOnConflictBuilder
                  (OnConflictBuilder_column
                     (OnConflictBuilder \<lparr>onConflictNode = d, parseContext = ctx\<rparr>) c))"
  unfolding st_OnConflictBuilder_column_def Let_def
  by (subst shape_columns [OF assms])
     (simp add: OnConflictBuilder_column_def instance_value_def Let_def)

lemma st_OnConflictBuilder_columns_refines:
  assumes "this_props s this = Inr (r, ctx)" and "node_value s r = Inr d"
  shows "and_then (st_OnConflictBuilder_columns s this cs) (\<lambda>(b, s'). builder_value s' b) =
           Inr (IsOnConflictBuilder
                  (OnConflictBuilder_columns
                     (OnConflictBuilder \<lparr>onConflictNode = d, parseContext = ctx\<rparr>) cs))"
  unfolding st_OnConflictBuilder_columns_def Let_def
  by (subst shape_columns [OF assms])
     (simp add: OnConflictBuilder_columns_def instance_value_def Let_def)

lemma built_value:
  "and_then (built x) (\<lambda>(r, s'). result_value s' r) =
     returning Builder (and_then x (\<lambda>(b, s'). builder_value s' b))"
  by (simp add: built_def and_then_def returning_def split: sum.splits prod.splits)

lemma returning_returning: "returning f (returning g x) = returning (f \<circ> g) x"
  by (simp add: returning_def split: sum.splits)

lemma and_then_Inl: "and_then (Inl e) f = Inl e"
  by (simp add: and_then_def)

lemma and_then_Inr: "and_then (Inr x) f = f x"
  by (simp add: and_then_def)

lemma returning_Inr: "returning f (Inr x) = Inr (f x)"
  by (simp add: returning_def)

lemmas st_target_refines =
  st_OnConflictBuilder_column_refines st_OnConflictBuilder_columns_refines
  st_OnConflictBuilder_constraint_refines st_OnConflictBuilder_expression_refines
  st_OnConflictBuilder_where_refines st_OnConflictBuilder_whereRef_refines
  st_OnConflictBuilder_orWhere_refines st_OnConflictBuilder_orWhereRef_refines
  st_OnConflictBuilder_whereExists_refines st_OnConflictBuilder_whereNotExists_refines
  st_OnConflictBuilder_orWhereExists_refines st_OnConflictBuilder_orWhereNotExists_refines
  st_OnConflictBuilder_doNothing_refines st_OnConflictBuilder_doUpdateSet_refines

lemmas st_update_refines =
  st_OnConflictUpdateBuilder_where_refines st_OnConflictUpdateBuilder_whereRef_refines
  st_OnConflictUpdateBuilder_orWhere_refines st_OnConflictUpdateBuilder_orWhereRef_refines
  st_OnConflictUpdateBuilder_whereExists_refines st_OnConflictUpdateBuilder_whereNotExists_refines
  st_OnConflictUpdateBuilder_orWhereExists_refines
  st_OnConflictUpdateBuilder_orWhereNotExists_refines

lemma st_OnConflictBuilder_invoke_refines:
  assumes "this_props s this = Inr (r, ctx)" and "node_value s r = Inr d"
  shows "and_then (st_OnConflictBuilder_invoke ps s this c) (\<lambda>(r, s'). result_value s' r) =
           OnConflictBuilder_invoke ps (OnConflictBuilder \<lparr>onConflictNode = d, parseContext = ctx\<rparr>) c"
  by (cases c)
     (simp_all add: st_OnConflictBuilder_invoke_def OnConflictBuilder_invoke_def built_value
        st_target_refines [OF assms] returning_returning returning_Inr not_a_function_def
        and_then_Inl and_then_Inr)

lemma st_toOperationNode_value:
  assumes "this_props s this = Inr (r, ctx)" and "node_value s r = Inr d"
  shows "and_then (and_then (st_toOperationNode s this) (\<lambda>n. Inr (NodeAt n, s)))
           (\<lambda>(r, s'). result_value s' r) = Inr (Node d)"
  by (simp add: st_toOperationNode_def and_then_def assms returning_def)

lemma st_OnConflictDoNothingBuilder_invoke_refines:
  assumes "this_props s this = Inr (r, ctx)" and "node_value s r = Inr d"
  shows "and_then (st_OnConflictDoNothingBuilder_invoke s this c)
           (\<lambda>(r, s'). result_value s' r) =
           OnConflictDoNothingBuilder_invoke
             (OnConflictDoNothingBuilder \<lparr>onConflictNode = d, parseContext = ctx\<rparr>) c"
  by (cases c)
     (simp_all add: st_OnConflictDoNothingBuilder_invoke_def OnConflictDoNothingBuilder_invoke_def
        st_toOperationNode_value [OF assms] OnConflictDoNothingBuilder_toOperationNode_def
        not_a_function_def and_then_Inl and_then_Inr)

lemma st_OnConflictUpdateBuilder_invoke_refines:
  assumes "this_props s this = Inr (r, ctx)" and "node_value s r = Inr d"
  shows "and_then (st_OnConflictUpdateBuilder_invoke ps s this c)
           (\<lambda>(r, s'). result_value s' r) =
           OnConflictUpdateBuilder_invoke ps
             (OnConflictUpdateBuilder \<lparr>onConflictNode = d, parseContext = ctx\<rparr>) c"
  by (cases c)
     (simp_all add: st_OnConflictUpdateBuilder_invoke_def OnConflictUpdateBuilder_invoke_def
        built_value st_update_refines [OF assms] returning_returning
        st_toOperationNode_value [OF assms] OnConflictUpdateBuilder_toOperationNode_def
        not_a_function_def and_then_Inl and_then_Inr)

text \<open>
  The calls on the store compute what the calls on values compute: when the receiver
  stands for the builder value \<open>B\<close>, a call on the store throws what the call on \<open>B\<close>
  throws, or returns a reference that stands for what the call on \<open>B\<close> returns.
\<close>

lemma st_invoke_refines:
  assumes "builder_value s this = Inr B"
  shows "and_then (st_invoke ps s this c) (\<lambda>(r, s'). result_value s' r) = invoke ps B c"
proof -
  from assms obtain cls p r ctx d where i: "instance_at s this = Inr (cls, p)"
    and p: "props_at s p = Inr (r, ctx)" and d: "node_value s r = Inr d"
    and B: "B = instance_value cls \<lparr>onConflictNode = d, parseContext = ctx\<rparr>"
    by (auto simp: builder_value_def and_then_def split: sum.splits)
  from i p have tp: "this_props s this = Inr (r, ctx)"
    by (simp add: this_props_def and_then_def)
  show ?thesis
  proof (cases cls)
    case OnConflictBuilder_class
    with i B show ?thesis
      using st_OnConflictBuilder_invoke_refines [OF tp d, of ps c]
      by (simp add: st_invoke_def and_then_def instance_value_def)
  next
    case OnConflictDoNothingBuilder_class
    with i B show ?thesis
      using st_OnConflictDoNothingBuilder_invoke_refines [OF tp d, of c]
      by (simp add: st_invoke_def and_then_def instance_value_def)
  next
    case OnConflictUpdateBuilder_class
    with i B show ?thesis
      using st_OnConflictUpdateBuilder_invoke_refines [OF tp d, of ps c]
      by (simp add: st_invoke_def and_then_def instance_value_def)
  qed
qed

lemma builder_value_prefix:
  assumes "prefix s s'" and "builder_value s b = Inr B"
  shows "builder_value s' b = Inr B"
  using assms(2)
  by (auto simp: builder_value_def and_then_def at_prefix [OF assms(1)]
        node_value_prefix [OF assms(1)] split: sum.splits)

lemma invoke_no_BadReference: "invoke ps B c \<noteq> Inl (BadReference k)"
proof (cases B)
  case (IsOnConflictBuilder b)
  then show ?thesis
    by (cases c)
       (simp_all add: OnConflictBuilder_invoke_def returning_def not_a_function_def
          target_builder_defs OnConflictBuilder_doUpdateSet_def Let_def split: sum.splits)
next
  case (IsOnConflictDoNothingBuilder b)
  then show ?thesis
    by (cases c) (simp_all add: OnConflictDoNothingBuilder_invoke_def not_a_function_def)
next
  case (IsOnConflictUpdateBuilder b)
  then show ?thesis
    by (cases c)
       (simp_all add: OnConflictUpdateBuilder_invoke_def returning_def not_a_function_def
          update_builder_defs Let_def split: sum.splits)
qed

text \<open>
  Claim C3. A call on a builder of the store (any of the methods, on any of the three
  classes) that returns leaves every object that was in the store as it was, the
  receiver, its props, its descriptor and its column array among them: the store before
  the call is an initial segment of the store after it. The builder it returns is a new
  instance holding new props holding a new descriptor. After the call and any further
  calls on any builders, the receiver still stands for the builder value it stood for,
  and a descriptor extracted from a terminal builder before the call is extracted again
  as the same object with the same contents. On a receiver that stands for a builder
  value, no call fails on a reference.
\<close>

theorem builder_calls_leave_receiver_unchanged:
  fixes s :: "('f, 'x, 'u, 'c) store" and ps :: "('c, 'a, 'f, 'u) parsers"
    and c :: "('a, 'x) call" and calls :: "(ref \<times> ('a, 'x) call) list"
  shows
    "(st_invoke ps s this c = Inr (r, s') \<longrightarrow>
        prefix s s' \<and> returns_new s s' r
        \<and> (builder_value s this = Inr B \<longrightarrow>
             builder_value (st_calls ps s' calls) this = Inr B)
        \<and> (st_toOperationNode s t = Inr n \<and> node_value s n = Inr v \<longrightarrow>
             st_toOperationNode (st_calls ps s' calls) t = Inr n
             \<and> node_value (st_calls ps s' calls) n = Inr v))
     \<and> (builder_value s this = Inr B \<longrightarrow> st_invoke ps s this c \<noteq> Inl (BadReference k))"
proof (intro conjI impI)
  assume call: "st_invoke ps s this c = Inr (r, s')"
  then show "prefix s s'" and "returns_new s s' r"
    by (simp_all add: st_invoke_frame)
  have later: "prefix s (st_calls ps s' calls)"
    using st_invoke_frame [OF call] st_calls_prefix [of s' ps calls]
    by (auto intro: prefix_order.trans)
  {
    assume "builder_value s this = Inr B"
    with later show "builder_value (st_calls ps s' calls) this = Inr B"
      by (rule builder_value_prefix)
  }
  {
    assume "st_toOperationNode s t = Inr n \<and> node_value s n = Inr v"
    with later show "st_toOperationNode (st_calls ps s' calls) t = Inr n"
      and "node_value (st_calls ps s' calls) n = Inr v"
      by (auto intro: st_toOperationNode_prefix node_value_prefix)
  }
next
  assume B: "builder_value s this = Inr B"
  show "st_invoke ps s this c \<noteq> Inl (BadReference k)"
  proof
    assume "st_invoke ps s this c = Inl (BadReference k)"
    with st_invoke_refines [OF B, of ps c] have "invoke ps B c = Inl (BadReference k)"
      by (simp add: and_then_def)
    then show False by (simp add: invoke_no_BadReference)
  qed
qed

theorem builder_calls_leave_receiver_unchanged_witness:
  "st_invoke sample_parsers sample_store 2 (call_columns [''a'', ''b'']) =
     Inr (BuilderAt 9,
          sample_store @
          [\<lparr>content = ArrayObject [ColumnNode ''a'', ColumnNode ''b''], frozen = True\<rparr>,
           \<lparr>content = NodeObject (OnConflictNode_create\<lparr>columns := Some 6\<rparr>), frozen = True\<rparr>,
           \<lparr>content = PropsObject 7 (), frozen = True\<rparr>,
           \<lparr>content = InstanceObject OnConflictBuilder_class 8, frozen = False\<rparr>])
   \<and> builder_value sample_store 2 = Inr (IsOnConflictBuilder (initial ()))
   \<and> st_toOperationNode sample_store 5 = Inr 3
   \<and> node_value sample_store 3 = Inr (OnConflictNode_create\<lparr>doNothing := Some True\<rparr>)
   \<and> prefix sample_store
        (sample_store @
          [\<lparr>content = ArrayObject [ColumnNode ''a'', ColumnNode ''b''], frozen = True\<rparr>,
           \<lparr>content = NodeObject (OnConflictNode_create\<lparr>columns := Some 6\<rparr>), frozen = True\<rparr>,
           \<lparr>content = PropsObject 7 (), frozen = True\<rparr>,
           \<lparr>content = InstanceObject OnConflictBuilder_class 8, frozen = False\<rparr>])
   \<and> returns_new sample_store
        (sample_store @
          [\<lparr>content = ArrayObject [ColumnNode ''a'', ColumnNode ''b''], frozen = True\<rparr>,
           \<lparr>content = NodeObject (OnConflictNode_create\<lparr>columns := Some 6\<rparr>), frozen = True\<rparr>,
           \<lparr>content = PropsObject 7 (), frozen = True\<rparr>,
           \<lparr>content = InstanceObject OnConflictBuilder_class 8, frozen = False\<rparr>])
        (BuilderAt 9)
   \<and> builder_value
        (st_calls sample_parsers
           (sample_store @
             [\<lparr>content = ArrayObject [ColumnNode ''a'', ColumnNode ''b''], frozen = True\<rparr>,
              \<lparr>content = NodeObject (OnConflictNode_create\<lparr>columns := Some 6\<rparr>), frozen = True\<rparr>,
              \<lparr>content = PropsObject 7 (), frozen = True\<rparr>,
              \<lparr>content = InstanceObject OnConflictBuilder_class 8, frozen = False\<rparr>])
           [(9, call_where [1]), (2, call_constraint ''k''), (12, call_doNothing)]) 2 =
       Inr (IsOnConflictBuilder (initial ()))
   \<and> st_toOperationNode
        (st_calls sample_parsers
           (sample_store @
             [\<lparr>content = ArrayObject [ColumnNode ''a'', ColumnNode ''b''], frozen = True\<rparr>,
              \<lparr>content = NodeObject (OnConflictNode_create\<lparr>columns := Some 6\<rparr>), frozen = True\<rparr>,
              \<lparr>content = PropsObject 7 (), frozen = True\<rparr>,
              \<lparr>content = InstanceObject OnConflictBuilder_class 8, frozen = False\<rparr>])
           [(9, call_where [1]), (2, call_constraint ''k''), (12, call_doNothing)]) 5 = Inr 3
   \<and> node_value
        (st_calls sample_parsers
           (sample_store @
             [\<lparr>content = ArrayObject [ColumnNode ''a'', ColumnNode ''b''], frozen = True\<rparr>,
              \<lparr>content = NodeObject (OnConflictNode_create\<lparr>columns := Some 6\<rparr>), frozen = True\<rparr>,
              \<lparr>content = PropsObject 7 (), frozen = True\<rparr>,
              \<lparr>content = InstanceObject OnConflictBuilder_class 8, frozen = False\<rparr>])
           [(9, call_where [1]), (2, call_constraint ''k''), (12, call_doNothing)]) 3 =
       Inr (OnConflictNode_create\<lparr>doNothing := Some True\<rparr>)
   \<and> st_invoke sample_parsers sample_store 2 (call_columns [''a'', ''b'']) \<noteq>
       Inl (BadReference 0)"
proof -
  let ?s' = "sample_store @
          [\<lparr>content = ArrayObject [ColumnNode ''a'', ColumnNode ''b''], frozen = True\<rparr>,
           \<lparr>content = NodeObject (OnConflictNode_create\<lparr>columns := Some 6\<rparr>), frozen = True\<rparr>,
           \<lparr>content = PropsObject 7 (), frozen = True\<rparr>,
           \<lparr>content = InstanceObject OnConflictBuilder_class 8, frozen = False\<rparr>]"
  have call: "st_invoke sample_parsers sample_store 2 (call_columns [''a'', ''b'']) =
                Inr (BuilderAt 9, ?s')"
    by code_simp
  have B: "builder_value sample_store 2 = Inr (IsOnConflictBuilder (initial ()))"
    by code_simp
  have t: "st_toOperationNode sample_store 5 = Inr 3"
    by code_simp
  have v: "node_value sample_store 3 = Inr (OnConflictNode_create\<lparr>doNothing := Some True\<rparr>)"
    by code_simp
  note inst = builder_calls_leave_receiver_unchanged
    [where ps = sample_parsers and s = sample_store and this = 2
       and c = "call_columns [''a'', ''b'']" and r = "BuilderAt 9" and s' = ?s'
       and B = "IsOnConflictBuilder (initial ())" and t = 5 and n = 3
       and v = "OnConflictNode_create\<lparr>doNothing := Some True\<rparr>"
       and calls = "[(9, call_where [1]), (2, call_constraint ''k''), (12, call_doNothing)]"
       and k = 0]
  from inst call B t v show ?thesis by blast
qed

end
